theory Spec2Isabelle
  imports Complex_Main
begin

section \<open>The particle pool of GAMER: \<open>Particle_t\<close>\<close>

text \<open>
  This theory embeds \<^verbatim>\<open>struct Particle_t\<close> of \<^verbatim>\<open>include/Particle.h\<close> and the
  constants of the macro header it uses, and proves properties of \<^verbatim>\<open>InitVar\<close>,
  \<^verbatim>\<open>AddOneParticle\<close> and \<^verbatim>\<open>RemoveOneParticle\<close>.

  Conventions of the embedding.
  \<^item> \<^verbatim>\<open>long\<close> and \<^verbatim>\<open>int\<close> variables are \<open>int\<close>. The counters only move by one per call,
    so their 64-bit range is out of reach; the one place where a width is visible in
    the source, the conversion \<^verbatim>\<open>(int)ceil(...)\<close>, is modelled with its range.
  \<^item> \<^verbatim>\<open>real\<close> (float or double) and \<^verbatim>\<open>double\<close> are the real numbers: rounding is not
    modelled. In binary64 the product \<^verbatim>\<open>1.1*k\<close> can lie just above the exact value, so
    the machine's \<^verbatim>\<open>ceil\<close> is at times one more than the exact ceiling (at \<open>k = 50\<close>: 56
    for 55).
  \<^item> A heap block is a list; a null pointer and a block of no cells are both the empty
    list (neither can be indexed, and \<^verbatim>\<open>realloc\<close> treats them alike). Allocation is
    assumed to succeed. Cells that \<^verbatim>\<open>malloc\<close> or \<^verbatim>\<open>realloc\<close> leave indeterminate hold
    the values \<open>fresh_real\<close>, \<open>fresh_long\<close> of the configuration, which is arbitrary in
    every theorem.
  \<^item> The cached pointers \<^verbatim>\<open>Mass\<close>, \<^verbatim>\<open>PosX\<close>, ... are reassigned from \<^verbatim>\<open>ParVar\<close> after
    every allocation, so \<^verbatim>\<open>Mass[i]\<close> is \<^verbatim>\<open>ParVar[PAR_MASS][i]\<close> throughout.
  \<^item> A call ends in \<open>Inr\<close> of the new state, or in \<open>Inl\<close> of an error: \<open>Aux_Error\<close> for a
    call of \<^verbatim>\<open>Aux_Error\<close>, \<open>Undefined_Behaviour\<close> for an access outside a block,
    through a null pointer, or a conversion out of range.
\<close>

subsection \<open>Constants of the macro header\<close>

definition PAR_MASS :: int where "PAR_MASS = 0"
definition PAR_POSX :: int where "PAR_POSX = 1"
definition PAR_POSY :: int where "PAR_POSY = 2"
definition PAR_POSZ :: int where "PAR_POSZ = 3"
definition PAR_VELX :: int where "PAR_VELX = 4"
definition PAR_VELY :: int where "PAR_VELY = 5"
definition PAR_VELZ :: int where "PAR_VELZ = 6"
definition PAR_TIME :: int where "PAR_TIME = 7"

definition PAR_INACTIVE_OUTSIDE :: real where "PAR_INACTIVE_OUTSIDE = - 1.0"
definition PAR_INACTIVE_MPI :: real where "PAR_INACTIVE_MPI = - 2.0"

definition INT_MAX :: int where "INT_MAX = 2147483647"
definition INT_MIN :: int where "INT_MIN = - 2147483648"
definition NULL_INT :: int where "NULL_INT = INT_MAX"

definition MAX_macro :: "int \<Rightarrow> int \<Rightarrow> int" where
  "MAX_macro a b = (if a > b then a else b)"

definition PARLIST_GROWTH_FACTOR :: real where "PARLIST_GROWTH_FACTOR = 1.1"
definition PARLIST_REDUCE_FACTOR :: real where "PARLIST_REDUCE_FACTOR = 0.8"

subsection \<open>Build configuration\<close>

text \<open>
  \<^verbatim>\<open>NLEVEL\<close>, \<^verbatim>\<open>NPAR_VAR\<close>, \<^verbatim>\<open>NPAR_PASSIVE\<close> and the switch \<^verbatim>\<open>GAMER_DEBUG\<close> (which defines
  \<^verbatim>\<open>DEBUG_PARTICLE\<close>) come from the makefile; they are parameters here.
\<close>

record config =
  NLEVEL :: nat
  NPAR_VAR :: nat
  NPAR_PASSIVE :: nat
  DEBUG_PARTICLE :: bool
  fresh_real :: real
  fresh_long :: int

subsection \<open>Errors\<close>

text \<open>
  Modelled from the spec: \<^verbatim>\<open>Aux_Error\<close> is declared in \<^verbatim>\<open>Particle.h\<close> and defined in
  another file of the repository. The specification calls every violation it reports
  fatal, with no retry and no recovery: the operation runs to completion or the process
  aborts. So a call of \<^verbatim>\<open>Aux_Error\<close> ends the call that makes it, with an error naming
  the check that failed.
\<close>

datatype check =
    NPar_AcPlusInac_Negative
  | Interp_None
  | Unsupported_Interp
  | NewVar_Null
  | NewPassive_Null
  | AveDens_Null
  | Incorrect_ParID
  | Wrong_ParID
  | Unsupported_Marker
  | Counter_Mismatch

datatype error = Aux_Error check | Undefined_Behaviour

definition bind_err :: "error + 'a \<Rightarrow> ('a \<Rightarrow> error + 'b) \<Rightarrow> error + 'b" where
  "bind_err m f = (case m of Inl e \<Rightarrow> Inl e | Inr x \<Rightarrow> f x)"

subsection \<open>Arrays and heap blocks\<close>

definition array_get :: "'a list \<Rightarrow> int \<Rightarrow> error + 'a" where
  "array_get xs i =
     (if 0 \<le> i \<and> i < int (length xs) then Inr (xs ! nat i) else Inl Undefined_Behaviour)"

definition array_set :: "'a list \<Rightarrow> int \<Rightarrow> 'a \<Rightarrow> error + 'a list" where
  "array_set xs i x =
     (if 0 \<le> i \<and> i < int (length xs) then Inr (xs[nat i := x]) else Inl Undefined_Behaviour)"

definition array_get2 :: "'a list list \<Rightarrow> int \<Rightarrow> int \<Rightarrow> error + 'a" where
  "array_get2 xss v i = bind_err (array_get xss v) (\<lambda>xs. array_get xs i)"

definition array_set2 :: "'a list list \<Rightarrow> int \<Rightarrow> int \<Rightarrow> 'a \<Rightarrow> error + 'a list list" where
  "array_set2 xss v i x =
     bind_err (array_get xss v) (\<lambda>xs.
     bind_err (array_set xs i x) (\<lambda>xs'.
     array_set xss v xs'))"

definition malloc :: "'a \<Rightarrow> int \<Rightarrow> 'a list" where
  "malloc fresh n = replicate (nat n) fresh"

definition realloc :: "'a \<Rightarrow> 'a list \<Rightarrow> int \<Rightarrow> 'a list" where
  "realloc fresh xs n = take (nat n) xs @ replicate (nat n - length xs) fresh"

subsection \<open>\<^verbatim>\<open>(int)ceil( PARLIST_GROWTH_FACTOR*(n+1) )\<close>\<close>

definition ceil :: "real \<Rightarrow> real" where
  "ceil x = real_of_int \<lceil>x\<rceil>"

definition double_to_int :: "real \<Rightarrow> error + int" where
  "double_to_int x =
     (let t = (if 0 \<le> x then \<lfloor>x\<rfloor> else \<lceil>x\<rceil>)
      in if INT_MIN \<le> t \<and> t \<le> INT_MAX then Inr t else Inl Undefined_Behaviour)"

definition grow_size :: "int \<Rightarrow> error + int" where
  "grow_size n = double_to_int (ceil (PARLIST_GROWTH_FACTOR * real_of_int (n + 1)))"

subsection \<open>The structure\<close>

text \<open>
  Modelled from the spec: the enumerations \<^verbatim>\<open>ParInit_t\<close>, \<^verbatim>\<open>ParInterp_t\<close> and
  \<^verbatim>\<open>ParInteg_t\<close> are declared in another header of the repository. Their constructors
  here are the enumerators that \<^verbatim>\<open>Particle.h\<close> names; the interpolation schemes are the
  three of the specification (nearest grid point, cloud in cell, triangular shaped
  cloud) and the unset value. A C++ enumeration can hold a value that is none of its
  enumerators, which is what the \<^verbatim>\<open>default\<close> branch of \<^verbatim>\<open>InitVar\<close> catches:
  \<open>PAR_INTERP_OTHER\<close>.
\<close>

datatype ParInit_t = PAR_INIT_NONE | PAR_INIT_OTHER int
datatype ParInterp_t =
  PAR_INTERP_NONE | PAR_INTERP_NGP | PAR_INTERP_CIC | PAR_INTERP_TSC | PAR_INTERP_OTHER int
datatype ParInteg_t = PAR_INTEG_NONE | PAR_INTEG_EULER | PAR_INTEG_KDK

record Particle_t =
  ParListSize :: int
  InactiveParListSize :: int
  NPar_Active_AllRank :: int
  NPar_AcPlusInac :: int
  NPar_Active :: int
  NPar_Inactive :: int
  NPar_Lv :: "int list"
  Init :: ParInit_t
  Interp :: ParInterp_t
  Integ :: ParInteg_t
  SyncDump :: bool
  ImproveAcc :: bool
  PredictPos :: bool
  RemoveCell :: real
  GhostSize :: int
  ParVar :: "real list list"
  Passive :: "real list list"
  InactiveParList :: "int list"

definition Mass :: "Particle_t \<Rightarrow> real list" where
  "Mass s = ParVar s ! nat PAR_MASS"

subsection \<open>Constructor\<close>

text \<open>
  The constructor assigns some members and leaves \<^verbatim>\<open>ParListSize\<close>,
  \<^verbatim>\<open>InactiveParListSize\<close>, \<^verbatim>\<open>NPar_Active\<close>, \<^verbatim>\<open>NPar_Inactive\<close> and \<^verbatim>\<open>GhostSize\<close> as they
  are in the raw storage it is given.
\<close>

definition Particle_t_constructor :: "config \<Rightarrow> Particle_t \<Rightarrow> Particle_t" where
  "Particle_t_constructor cfg raw = raw
     \<lparr> NPar_Active_AllRank := - 1,
       NPar_AcPlusInac := - 1,
       NPar_Lv := replicate (NLEVEL cfg) 0,
       Init := PAR_INIT_NONE,
       Interp := PAR_INTERP_NONE,
       Integ := PAR_INTEG_NONE,
       SyncDump := True,
       ImproveAcc := True,
       PredictPos := True,
       RemoveCell := - 999.9,
       ParVar := replicate (NPAR_VAR cfg) [],
       Passive := replicate (NPAR_PASSIVE cfg) [],
       InactiveParList := [] \<rparr>"

subsection \<open>\<^verbatim>\<open>InitVar\<close>\<close>

text \<open>
  \<^verbatim>\<open>ParListSize/100\<close> is a division of a value that the first check has found to be at
  least 0, where C's truncation and \<open>div\<close> agree.
\<close>

definition InitVar :: "config \<Rightarrow> Particle_t \<Rightarrow> error + Particle_t" where
  "InitVar cfg s =
     (if NPar_AcPlusInac s < 0 then Inl (Aux_Error NPar_AcPlusInac_Negative)
      else if Interp s = PAR_INTERP_NONE then Inl (Aux_Error Interp_None)
      else
        let s1 = s \<lparr> NPar_Active := NPar_AcPlusInac s,
                     NPar_Inactive := 0,
                     ParListSize := NPar_AcPlusInac s \<rparr>;
            s2 = s1 \<lparr> InactiveParListSize := MAX_macro 1 (ParListSize s1 div 100) \<rparr>
        in bind_err
             (case Interp s2 of
                PAR_INTERP_NGP \<Rightarrow> Inr (s2 \<lparr> GhostSize := 0 \<rparr>)
              | PAR_INTERP_CIC \<Rightarrow> Inr (s2 \<lparr> GhostSize := 1 \<rparr>)
              | PAR_INTERP_TSC \<Rightarrow> Inr (s2 \<lparr> GhostSize := 1 \<rparr>)
              | _ \<Rightarrow> Inl (Aux_Error Unsupported_Interp))
             (\<lambda>s3. Inr (s3
                \<lparr> ParVar := replicate (NPAR_VAR cfg) (malloc (fresh_real cfg) (ParListSize s3)),
                  Passive := replicate (NPAR_PASSIVE cfg) (malloc (fresh_real cfg) (ParListSize s3)),
                  InactiveParList := malloc (fresh_long cfg) (InactiveParListSize s3) \<rparr>)))"

subsection \<open>\<^verbatim>\<open>AddOneParticle\<close>\<close>

text \<open>The checks of the debug build, in the order of the source.\<close>

definition AddOneParticle_check ::
  "config \<Rightarrow> Particle_t \<Rightarrow> real list option \<Rightarrow> real list option \<Rightarrow> real option \<Rightarrow> error option"
where
  "AddOneParticle_check cfg s NewVar NewPassive AveDens =
     (if \<not> DEBUG_PARTICLE cfg then None
      else if NPar_AcPlusInac s < 0 then Some (Aux_Error NPar_AcPlusInac_Negative)
      else if NewVar = None then Some (Aux_Error NewVar_Null)
      else if NPAR_PASSIVE cfg > 0 \<and> NewPassive = None then Some (Aux_Error NewPassive_Null)
      else if AveDens = None then Some (Aux_Error AveDens_Null)
      else None)"

text \<open>Growing the attribute arrays when no slot is left (step 1-2 of the source).\<close>

definition AddOneParticle_grow :: "config \<Rightarrow> Particle_t \<Rightarrow> error + Particle_t" where
  "AddOneParticle_grow cfg s =
     (if NPar_AcPlusInac s \<ge> ParListSize s then
        bind_err (grow_size (ParListSize s)) (\<lambda>n.
        Inr (s \<lparr> ParListSize := n,
                 ParVar := map (\<lambda>b. realloc (fresh_real cfg) b n) (ParVar s),
                 Passive := map (\<lambda>b. realloc (fresh_real cfg) b n) (Passive s) \<rparr>))
      else Inr s)"

text \<open>Step 1: the target particle ID, and the state after choosing it.\<close>

definition AddOneParticle_ParID :: "config \<Rightarrow> Particle_t \<Rightarrow> error + (int \<times> Particle_t)" where
  "AddOneParticle_ParID cfg s =
     (if NPar_Inactive s > 0 then
        bind_err (array_get (InactiveParList s) (NPar_Inactive s - 1)) (\<lambda>ParID.
        let s1 = s \<lparr> NPar_Inactive := NPar_Inactive s - 1 \<rparr>
        in if DEBUG_PARTICLE cfg \<and> (ParID < 0 \<or> ParID \<ge> NPar_AcPlusInac s1)
           then Inl (Aux_Error Incorrect_ParID)
           else Inr (ParID, s1))
      else
        bind_err (AddOneParticle_grow cfg s) (\<lambda>s1.
        Inr (NPar_AcPlusInac s1, s1 \<lparr> NPar_AcPlusInac := NPar_AcPlusInac s1 + 1 \<rparr>)))"

text \<open>
  Step 2: \<^verbatim>\<open>for (v...) Var[v][ParID] = New[v]\<close>, over the entries of the pointer array
  in order. \<^verbatim>\<open>New\<close> is the caller's array: reading past its end, or through a null
  pointer (the empty list), is undefined.
\<close>

fun record_data :: "real list list \<Rightarrow> int \<Rightarrow> real list \<Rightarrow> error + real list list" where
  "record_data [] ParID New = Inr []"
| "record_data (b # bs) ParID [] = Inl Undefined_Behaviour"
| "record_data (b # bs) ParID (x # xs) =
     bind_err (array_set b ParID x) (\<lambda>b'.
     bind_err (record_data bs ParID xs) (\<lambda>bs'.
     Inr (b' # bs')))"

definition pointee :: "'a list option \<Rightarrow> 'a list" where
  "pointee p = (case p of None \<Rightarrow> [] | Some xs \<Rightarrow> xs)"

definition deref :: "'a option \<Rightarrow> error + 'a" where
  "deref p = (case p of None \<Rightarrow> Inl Undefined_Behaviour | Some x \<Rightarrow> Inr x)"

definition AddOneParticle ::
  "config \<Rightarrow> Particle_t \<Rightarrow> real list option \<Rightarrow> real list option \<Rightarrow> int \<Rightarrow> real option \<Rightarrow> real
     \<Rightarrow> error + (Particle_t \<times> real option)"
where
  "AddOneParticle cfg s NewVar NewPassive lv AveDens BoxVolume_inv =
     (case AddOneParticle_check cfg s NewVar NewPassive AveDens of
        Some e \<Rightarrow> Inl e
      | None \<Rightarrow>
          bind_err (AddOneParticle_ParID cfg s) (\<lambda>(ParID, s1).
          bind_err (record_data (ParVar s1) ParID (pointee NewVar)) (\<lambda>pv.
          bind_err (record_data (Passive s1) ParID (pointee NewPassive)) (\<lambda>pp.
          let s2 = s1 \<lparr> ParVar := pv, Passive := pp \<rparr>
          in bind_err (deref AveDens) (\<lambda>a.
             bind_err (array_get2 (ParVar s2) PAR_MASS ParID) (\<lambda>m.
             let s3 = s2 \<lparr> NPar_Active := NPar_Active s2 + 1 \<rparr>
             in bind_err (array_get (NPar_Lv s3) lv) (\<lambda>c.
                bind_err (array_set (NPar_Lv s3) lv (c + 1)) (\<lambda>l.
                Inr (s3 \<lparr> NPar_Lv := l \<rparr>, Some (a + m * BoxVolume_inv))))))))))"

subsection \<open>\<^verbatim>\<open>RemoveOneParticle\<close>\<close>

definition RemoveOneParticle_check :: "config \<Rightarrow> Particle_t \<Rightarrow> int \<Rightarrow> real \<Rightarrow> error option" where
  "RemoveOneParticle_check cfg s ParID Marker =
     (if \<not> DEBUG_PARTICLE cfg then None
      else if ParID < 0 \<or> ParID \<ge> NPar_AcPlusInac s then Some (Aux_Error Wrong_ParID)
      else if Marker \<noteq> PAR_INACTIVE_OUTSIDE \<and> Marker \<noteq> PAR_INACTIVE_MPI
        then Some (Aux_Error Unsupported_Marker)
      else None)"

text \<open>Step 1: room for one more entry of \<^verbatim>\<open>InactiveParList\<close>.\<close>

definition RemoveOneParticle_grow :: "config \<Rightarrow> Particle_t \<Rightarrow> error + Particle_t" where
  "RemoveOneParticle_grow cfg s =
     (if NPar_Inactive s \<ge> InactiveParListSize s then
        bind_err (grow_size (InactiveParListSize s)) (\<lambda>n.
        Inr (s \<lparr> InactiveParListSize := n,
                 InactiveParList := realloc (fresh_long cfg) (InactiveParList s) n \<rparr>))
      else Inr s)"

text \<open>Steps 2 and 3, and the check of the counters in the debug build.\<close>

definition RemoveOneParticle_body ::
  "config \<Rightarrow> Particle_t \<Rightarrow> int \<Rightarrow> real \<Rightarrow> int \<Rightarrow> real option \<Rightarrow> real
     \<Rightarrow> error + (Particle_t \<times> real option)"
where
  "RemoveOneParticle_body cfg s ParID Marker lv AveDens BoxVolume_inv =
     bind_err (RemoveOneParticle_grow cfg s) (\<lambda>s1.
     bind_err (array_set (InactiveParList s1) (NPar_Inactive s1) ParID) (\<lambda>l.
     let s2 = s1 \<lparr> InactiveParList := l \<rparr>
     in bind_err
          (case AveDens of
             None \<Rightarrow> Inr None
           | Some a \<Rightarrow>
               bind_err (array_get2 (ParVar s2) PAR_MASS ParID) (\<lambda>m.
               Inr (Some (a - m * BoxVolume_inv))))
          (\<lambda>AveDens'.
        bind_err (array_set2 (ParVar s2) PAR_MASS ParID Marker) (\<lambda>pv.
        let s3 = s2 \<lparr> ParVar := pv, NPar_Active := NPar_Active s2 - 1 \<rparr>
        in bind_err
             (if lv \<noteq> NULL_INT then
                bind_err (array_get (NPar_Lv s3) lv) (\<lambda>c.
                bind_err (array_set (NPar_Lv s3) lv (c - 1)) (\<lambda>l'.
                Inr (s3 \<lparr> NPar_Lv := l' \<rparr>)))
              else Inr s3)
             (\<lambda>s4.
           let s5 = s4 \<lparr> NPar_Inactive := NPar_Inactive s4 + 1 \<rparr>
           in if DEBUG_PARTICLE cfg \<and> NPar_Active s5 + NPar_Inactive s5 \<noteq> NPar_AcPlusInac s5
              then Inl (Aux_Error Counter_Mismatch)
              else Inr (s5, AveDens'))))))"

definition RemoveOneParticle ::
  "config \<Rightarrow> Particle_t \<Rightarrow> int \<Rightarrow> real \<Rightarrow> int \<Rightarrow> real option \<Rightarrow> real
     \<Rightarrow> error + (Particle_t \<times> real option)"
where
  "RemoveOneParticle cfg s ParID Marker lv AveDens BoxVolume_inv =
     (case RemoveOneParticle_check cfg s ParID Marker of
        Some e \<Rightarrow> Inl e
      | None \<Rightarrow> RemoveOneParticle_body cfg s ParID Marker lv AveDens BoxVolume_inv)"

subsection \<open>Sequences of calls\<close>

text \<open>
  A caller holds the pool and the global \<^verbatim>\<open>AveDensity\<close>; each call passes either the
  address of that variable or a null pointer.
\<close>

datatype call =
    Add "real list option" "real list option" int bool real
  | Remove int real int bool real

definition AveDens_arg :: "bool \<Rightarrow> real \<Rightarrow> real option" where
  "AveDens_arg pass d = (if pass then Some d else None)"

definition AveDens_result :: "real \<Rightarrow> real option \<Rightarrow> real" where
  "AveDens_result d a = (case a of None \<Rightarrow> d | Some d' \<Rightarrow> d')"

fun step :: "config \<Rightarrow> Particle_t \<times> real \<Rightarrow> call \<Rightarrow> error + (Particle_t \<times> real)" where
  "step cfg (s, d) (Add NewVar NewPassive lv pass BoxVolume_inv) =
     bind_err (AddOneParticle cfg s NewVar NewPassive lv (AveDens_arg pass d) BoxVolume_inv)
       (\<lambda>(s', a). Inr (s', AveDens_result d a))"
| "step cfg (s, d) (Remove ParID Marker lv pass BoxVolume_inv) =
     bind_err (RemoveOneParticle cfg s ParID Marker lv (AveDens_arg pass d) BoxVolume_inv)
       (\<lambda>(s', a). Inr (s', AveDens_result d a))"

fun run :: "config \<Rightarrow> Particle_t \<times> real \<Rightarrow> call list \<Rightarrow> error + (Particle_t \<times> real)" where
  "run cfg sd [] = Inr sd"
| "run cfg sd (c # cs) = bind_err (step cfg sd c) (\<lambda>sd'. run cfg sd' cs)"

fun level_tracked :: "call \<Rightarrow> bool" where
  "level_tracked (Add NewVar NewPassive lv pass BoxVolume_inv) = True"
| "level_tracked (Remove ParID Marker lv pass BoxVolume_inv) = (lv \<noteq> NULL_INT)"

subsection \<open>Well-formed pools\<close>

text \<open>
  What the comments of the structure ask of its members: the arrays have the sizes the
  size members record, \<^verbatim>\<open>ParListSize >= NPar_AcPlusInac\<close>, the counters add up, and the
  first \<^verbatim>\<open>NPar_Inactive\<close> entries of \<^verbatim>\<open>InactiveParList\<close> are particle IDs.
\<close>

definition pool_ok :: "config \<Rightarrow> Particle_t \<Rightarrow> bool" where
  "pool_ok cfg s \<longleftrightarrow>
     length (ParVar s) = NPAR_VAR cfg \<and> PAR_MASS < int (NPAR_VAR cfg) \<and>
     length (Passive s) = NPAR_PASSIVE cfg \<and>
     (\<forall>b \<in> set (ParVar s). int (length b) = ParListSize s) \<and>
     (\<forall>b \<in> set (Passive s). int (length b) = ParListSize s) \<and>
     length (NPar_Lv s) = NLEVEL cfg \<and>
     int (length (InactiveParList s)) = InactiveParListSize s \<and>
     0 \<le> NPar_AcPlusInac s \<and> NPar_AcPlusInac s \<le> ParListSize s \<and>
     0 \<le> NPar_Inactive s \<and> NPar_Inactive s \<le> InactiveParListSize s \<and>
     NPar_Active s + NPar_Inactive s = NPar_AcPlusInac s \<and>
     (\<forall>i \<in> set (take (nat (NPar_Inactive s)) (InactiveParList s)).
        0 \<le> i \<and> i < NPar_AcPlusInac s)"

subsection \<open>Example pools\<close>

text \<open>
  A configuration with three levels, the eight attributes of the macro header and one
  passive attribute, in the debug build. \<open>start_ex\<close> is a pool constructed on zeroed
  storage and set up for no particles and cloud-in-cell interpolation.
\<close>

definition cfg_ex :: config where
  "cfg_ex = \<lparr> NLEVEL = 3, NPAR_VAR = 8, NPAR_PASSIVE = 1, DEBUG_PARTICLE = True,
              fresh_real = - 99, fresh_long = - 7 \<rparr>"

definition raw_ex :: Particle_t where
  "raw_ex = \<lparr> ParListSize = 0, InactiveParListSize = 0, NPar_Active_AllRank = 0,
     NPar_AcPlusInac = 0, NPar_Active = 0, NPar_Inactive = 0, NPar_Lv = [],
     Init = PAR_INIT_NONE, Interp = PAR_INTERP_NONE, Integ = PAR_INTEG_NONE,
     SyncDump = False, ImproveAcc = False, PredictPos = False, RemoveCell = 0,
     GhostSize = 0, ParVar = [], Passive = [], InactiveParList = [] \<rparr>"

definition start_ex :: Particle_t where
  "start_ex = (Particle_t_constructor cfg_ex raw_ex)
     \<lparr> NPar_AcPlusInac := 0, Interp := PAR_INTERP_CIC \<rparr>"

definition particle_ex :: "real \<Rightarrow> real list option" where
  "particle_ex m = Some [m, m + 1, m + 2, m + 3, m + 4, m + 5, m + 6, m + 7]"

definition tracked_ex :: "call list" where
  "tracked_ex =
     [Add (particle_ex 10) (Some [1 / 2]) 0 True (1 / 2),
      Add (particle_ex 20) (Some [1 / 4]) 1 True (1 / 2),
      Remove 1 (- 1) 1 True (1 / 2)]"

definition calls_ex :: "call list" where
  "calls_ex = tracked_ex @ [Remove 0 (- 2) NULL_INT False (1 / 2)]"

text \<open>\<open>pool0_ex\<close> is \<open>start_ex\<close> after \<^verbatim>\<open>InitVar\<close>; \<open>pool1_ex\<close> to \<open>pool4_ex\<close> are the pools after each
  call of \<open>calls_ex\<close>; \<open>pool5_ex\<close> is \<open>pool3_ex\<close> after adding a third particle.\<close>

definition pool0_ex :: Particle_t where
  "pool0_ex = \<lparr> ParListSize = 0, InactiveParListSize = 1, NPar_Active_AllRank = - 1,
     NPar_AcPlusInac = 0, NPar_Active = 0, NPar_Inactive = 0, NPar_Lv = [0, 0, 0],
     Init = PAR_INIT_NONE, Interp = PAR_INTERP_CIC, Integ = PAR_INTEG_NONE,
     SyncDump = True, ImproveAcc = True, PredictPos = True, RemoveCell = - 999.9,
     GhostSize = 1,
     ParVar = [[], [], [], [], [], [], [], []],
     Passive = [[]], InactiveParList = [- 7] \<rparr>"

definition pool1_ex :: Particle_t where
  "pool1_ex = \<lparr> ParListSize = 2, InactiveParListSize = 1, NPar_Active_AllRank = - 1,
     NPar_AcPlusInac = 1, NPar_Active = 1, NPar_Inactive = 0, NPar_Lv = [1, 0, 0],
     Init = PAR_INIT_NONE, Interp = PAR_INTERP_CIC, Integ = PAR_INTEG_NONE,
     SyncDump = True, ImproveAcc = True, PredictPos = True, RemoveCell = - 999.9,
     GhostSize = 1,
     ParVar = [[10, - 99], [11, - 99], [12, - 99], [13, - 99],
               [14, - 99], [15, - 99], [16, - 99], [17, - 99]],
     Passive = [[1 / 2, - 99]], InactiveParList = [- 7] \<rparr>"

definition pool2_ex :: Particle_t where
  "pool2_ex = \<lparr> ParListSize = 2, InactiveParListSize = 1, NPar_Active_AllRank = - 1,
     NPar_AcPlusInac = 2, NPar_Active = 2, NPar_Inactive = 0, NPar_Lv = [1, 1, 0],
     Init = PAR_INIT_NONE, Interp = PAR_INTERP_CIC, Integ = PAR_INTEG_NONE,
     SyncDump = True, ImproveAcc = True, PredictPos = True, RemoveCell = - 999.9,
     GhostSize = 1,
     ParVar = [[10, 20], [11, 21], [12, 22], [13, 23],
               [14, 24], [15, 25], [16, 26], [17, 27]],
     Passive = [[1 / 2, 1 / 4]], InactiveParList = [- 7] \<rparr>"

definition pool3_ex :: Particle_t where
  "pool3_ex = \<lparr> ParListSize = 2, InactiveParListSize = 1, NPar_Active_AllRank = - 1,
     NPar_AcPlusInac = 2, NPar_Active = 1, NPar_Inactive = 1, NPar_Lv = [1, 0, 0],
     Init = PAR_INIT_NONE, Interp = PAR_INTERP_CIC, Integ = PAR_INTEG_NONE,
     SyncDump = True, ImproveAcc = True, PredictPos = True, RemoveCell = - 999.9,
     GhostSize = 1,
     ParVar = [[10, - 1], [11, 21], [12, 22], [13, 23],
               [14, 24], [15, 25], [16, 26], [17, 27]],
     Passive = [[1 / 2, 1 / 4]], InactiveParList = [1] \<rparr>"

definition pool4_ex :: Particle_t where
  "pool4_ex = \<lparr> ParListSize = 2, InactiveParListSize = 3, NPar_Active_AllRank = - 1,
     NPar_AcPlusInac = 2, NPar_Active = 0, NPar_Inactive = 2, NPar_Lv = [1, 0, 0],
     Init = PAR_INIT_NONE, Interp = PAR_INTERP_CIC, Integ = PAR_INTEG_NONE,
     SyncDump = True, ImproveAcc = True, PredictPos = True, RemoveCell = - 999.9,
     GhostSize = 1,
     ParVar = [[- 2, - 1], [11, 21], [12, 22], [13, 23],
               [14, 24], [15, 25], [16, 26], [17, 27]],
     Passive = [[1 / 2, 1 / 4]], InactiveParList = [1, 0, - 7] \<rparr>"


text \<open>
  A pool set up by \<^verbatim>\<open>InitVar\<close> for one particle: \<open>start_one_ex\<close> before the call,
  \<open>one_ex\<close> after it.
\<close>

definition start_one_ex :: Particle_t where
  "start_one_ex = start_ex \<lparr> NPar_AcPlusInac := 1 \<rparr>"

definition one_ex :: Particle_t where
  "one_ex = \<lparr> ParListSize = 1, InactiveParListSize = 1, NPar_Active_AllRank = - 1,
     NPar_AcPlusInac = 1, NPar_Active = 1, NPar_Inactive = 0, NPar_Lv = [0, 0, 0],
     Init = PAR_INIT_NONE, Interp = PAR_INTERP_CIC, Integ = PAR_INTEG_NONE,
     SyncDump = True, ImproveAcc = True, PredictPos = True, RemoveCell = - 999.9,
     GhostSize = 1,
     ParVar = [[- 99], [- 99], [- 99], [- 99], [- 99], [- 99], [- 99], [- 99]],
     Passive = [[- 99]], InactiveParList = [- 7] \<rparr>"

text \<open>
  A pool set up by \<^verbatim>\<open>InitVar\<close> for 2000000000 particles: \<open>start_big_ex\<close> before the
  call, \<open>big_ex\<close> after it.
\<close>

definition start_big_ex :: Particle_t where
  "start_big_ex = start_ex \<lparr> NPar_AcPlusInac := 2000000000 \<rparr>"

definition big_ex :: Particle_t where
  "big_ex = \<lparr> ParListSize = 2000000000, InactiveParListSize = 20000000,
     NPar_Active_AllRank = - 1, NPar_AcPlusInac = 2000000000, NPar_Active = 2000000000,
     NPar_Inactive = 0, NPar_Lv = [0, 0, 0],
     Init = PAR_INIT_NONE, Interp = PAR_INTERP_CIC, Integ = PAR_INTEG_NONE,
     SyncDump = True, ImproveAcc = True, PredictPos = True, RemoveCell = - 999.9,
     GhostSize = 1,
     ParVar = replicate 8 (replicate 2000000000 (- 99)),
     Passive = replicate 1 (replicate 2000000000 (- 99)),
     InactiveParList = replicate 20000000 (- 7) \<rparr>"

section \<open>Properties\<close>

subsection \<open>Results and array accesses\<close>

lemma bind_err_Inl [simp]: "bind_err (Inl e) f = Inl e"
  by (simp add: bind_err_def)

lemma bind_err_Inr [simp]: "bind_err (Inr x) f = f x"
  by (simp add: bind_err_def)

lemma bind_err_Inr_iff: "bind_err m f = Inr y \<longleftrightarrow> (\<exists>x. m = Inr x \<and> f x = Inr y)"
  by (cases m) simp_all

lemma bind_err_Inl_iff:
  "bind_err m f = Inl e \<longleftrightarrow> m = Inl e \<or> (\<exists>x. m = Inr x \<and> f x = Inl e)"
  by (cases m) simp_all

lemma array_get_Inr_iff:
  "array_get xs i = Inr x \<longleftrightarrow> 0 \<le> i \<and> i < int (length xs) \<and> x = xs ! nat i"
  by (auto simp: array_get_def)

lemma array_set_Inr_iff:
  "array_set xs i x = Inr ys \<longleftrightarrow> 0 \<le> i \<and> i < int (length xs) \<and> ys = xs[nat i := x]"
  by (auto simp: array_set_def)

lemma array_get2_Inr_iff:
  "array_get2 xss v i = Inr x \<longleftrightarrow>
     0 \<le> v \<and> v < int (length xss) \<and> 0 \<le> i \<and> i < int (length (xss ! nat v)) \<and> x = xss ! nat v ! nat i"
  by (auto simp: array_get2_def bind_err_Inr_iff array_get_Inr_iff)

lemma array_set2_Inr_iff:
  "array_set2 xss v i x = Inr yss \<longleftrightarrow>
     0 \<le> v \<and> v < int (length xss) \<and> 0 \<le> i \<and> i < int (length (xss ! nat v)) \<and>
     yss = xss[nat v := (xss ! nat v)[nat i := x]]"
  by (auto simp: array_set2_def bind_err_Inr_iff array_get_Inr_iff array_set_Inr_iff)

lemma array_get_Inl: "array_get xs i = Inl e \<Longrightarrow> e = Undefined_Behaviour"
  by (simp add: array_get_def split: if_splits)

lemma array_set_Inl: "array_set xs i x = Inl e \<Longrightarrow> e = Undefined_Behaviour"
  by (simp add: array_set_def split: if_splits)

lemma array_get2_Inl: "array_get2 xss k i = Inl e \<Longrightarrow> e = Undefined_Behaviour"
  by (auto simp: array_get2_def bind_err_Inl_iff dest: array_get_Inl)

lemma array_set2_Inl: "array_set2 xss k i x = Inl e \<Longrightarrow> e = Undefined_Behaviour"
  by (auto simp: array_set2_def bind_err_Inl_iff dest: array_get_Inl array_set_Inl)

lemma sum_list_bump:
  fixes xs :: "int list"
  shows "i < length xs \<Longrightarrow> sum_list (xs[i := xs ! i + c]) = sum_list xs + c"
proof (induction xs arbitrary: i)
  case Nil
  then show ?case by simp
next
  case (Cons x xs)
  then show ?case by (cases i) simp_all
qed

lemma list_update_all:
  "\<forall>b \<in> set xs. P b \<Longrightarrow> P y \<Longrightarrow> \<forall>b \<in> set (xs[i := y]). P b"
  by (auto dest: set_update_subset_insert [THEN subsetD])

lemma take_Suc_update:
  "n < length xs \<Longrightarrow> take (Suc n) (xs[n := y]) = take n xs @ [y]"
  by (simp add: take_Suc_conv_app_nth)

lemma replicate_numeral: "replicate (numeral k) x = x # replicate (pred_numeral k) x"
  by (simp add: numeral_eq_Suc)

subsection \<open>Allocation and growth\<close>

lemma realloc_length: "0 \<le> n \<Longrightarrow> int (length (realloc fresh xs n)) = n"
  by (simp add: realloc_def)

lemma realloc_nth:
  "k < length xs \<Longrightarrow> int k < n \<Longrightarrow> realloc fresh xs n ! k = xs ! k"
proof -
  assume "k < length xs" "int k < n"
  then have "k < nat n" by linarith
  with \<open>k < length xs\<close> show ?thesis by (simp add: realloc_def nth_append)
qed

lemma realloc_take:
  "int k \<le> n \<Longrightarrow> k \<le> length xs \<Longrightarrow> take k (realloc fresh xs n) = take k xs"
proof -
  assume "int k \<le> n" "k \<le> length xs"
  then have "k \<le> nat n" by linarith
  with \<open>k \<le> length xs\<close> show ?thesis by (simp add: realloc_def min_def)
qed

lemma double_to_int_of_int:
  "double_to_int (real_of_int c) =
     (if INT_MIN \<le> c \<and> c \<le> INT_MAX then Inr c else Inl Undefined_Behaviour)"
  by (simp add: double_to_int_def)

lemma ceiling_growth:
  "\<lceil>PARLIST_GROWTH_FACTOR * real_of_int k\<rceil> = - ((- (11 * k)) div 10)"
proof -
  have "PARLIST_GROWTH_FACTOR * real_of_int k = real_of_int (11 * k) / real_of_int 10"
    by (simp add: PARLIST_GROWTH_FACTOR_def)
  then show ?thesis
    by (simp only: ceiling_divide_eq_div)
qed

lemma grow_size_eval:
  "grow_size n =
     (if INT_MIN \<le> - ((- (11 * (n + 1))) div 10) \<and> - ((- (11 * (n + 1))) div 10) \<le> INT_MAX
      then Inr (- ((- (11 * (n + 1))) div 10)) else Inl Undefined_Behaviour)"
  unfolding grow_size_def ceil_def ceiling_growth double_to_int_of_int ..

lemma ceiling_growth_bounds:
  "10 * \<lceil>PARLIST_GROWTH_FACTOR * real_of_int k\<rceil> < 11 * k + 10"
  "11 * k \<le> 10 * \<lceil>PARLIST_GROWTH_FACTOR * real_of_int k\<rceil>"
proof -
  define x where "x = - (11 * k)"
  have "x = 10 * (x div 10) + x mod 10" by simp
  moreover have "0 \<le> x mod 10" "x mod 10 < 10" by simp_all
  ultimately have "10 * (x div 10) \<le> x" "x < 10 * (x div 10) + 10" by linarith+
  then have "10 * (- (x div 10)) < - x + 10" "- x \<le> 10 * (- (x div 10))" by linarith+
  then show "10 * \<lceil>PARLIST_GROWTH_FACTOR * real_of_int k\<rceil> < 11 * k + 10"
    "11 * k \<le> 10 * \<lceil>PARLIST_GROWTH_FACTOR * real_of_int k\<rceil>"
    unfolding x_def ceiling_growth by simp_all
qed

lemma grow_size_ceiling:
  "grow_size n =
     (if INT_MIN \<le> \<lceil>PARLIST_GROWTH_FACTOR * real_of_int (n + 1)\<rceil> \<and>
         \<lceil>PARLIST_GROWTH_FACTOR * real_of_int (n + 1)\<rceil> \<le> INT_MAX
      then Inr \<lceil>PARLIST_GROWTH_FACTOR * real_of_int (n + 1)\<rceil>
      else Inl Undefined_Behaviour)"
  unfolding grow_size_def ceil_def double_to_int_of_int ..

lemma grow_size_Inr:
  assumes "grow_size n = Inr m"
  shows "m = \<lceil>PARLIST_GROWTH_FACTOR * real_of_int (n + 1)\<rceil>" "m \<le> INT_MAX"
    "0 \<le> n \<Longrightarrow> n + 2 \<le> m"
proof -
  from assms show m: "m = \<lceil>PARLIST_GROWTH_FACTOR * real_of_int (n + 1)\<rceil>"
    and "m \<le> INT_MAX"
    by (simp_all add: grow_size_ceiling split: if_splits)
  assume "0 \<le> n"
  moreover from ceiling_growth_bounds(2) [of "n + 1"] have "11 * n + 11 \<le> 10 * m"
    by (simp only: m distrib_left mult_1_right)
  ultimately have "10 * n + 10 < 10 * m" by linarith
  then have "10 * (n + 1) < 10 * m" by (simp only: distrib_left mult_1_right)
  then show "n + 2 \<le> m" by simp
qed

lemma grow_size_succeeds:
  assumes "0 \<le> n" "n < 1952257860"
  shows "\<exists>m. grow_size n = Inr m"
proof -
  define c where "c = \<lceil>PARLIST_GROWTH_FACTOR * real_of_int (n + 1)\<rceil>"
  have b: "10 * c < 11 * n + 11 + 10" "11 * n + 11 \<le> 10 * c"
    using ceiling_growth_bounds [of "n + 1"]
    by (simp_all only: c_def distrib_left mult_1_right)
  from assms(1) b(2) have "10 * 0 \<le> 10 * c" by linarith
  then have "0 \<le> c" by simp
  then have lo: "INT_MIN \<le> c" by (simp add: INT_MIN_def)
  from assms(2) b(1) have "10 * c < 10 * 2147483647" by linarith
  then have hi: "c \<le> INT_MAX" by (simp add: INT_MAX_def)
  from lo hi show ?thesis by (simp add: grow_size_ceiling c_def)
qed

lemma grow_size_overflow:
  assumes "1952257860 \<le> n"
  shows "grow_size n = Inl Undefined_Behaviour"
proof -
  define c where "c = \<lceil>PARLIST_GROWTH_FACTOR * real_of_int (n + 1)\<rceil>"
  have b: "11 * n + 11 \<le> 10 * c"
    using ceiling_growth_bounds(2) [of "n + 1"]
    by (simp only: c_def distrib_left mult_1_right)
  with assms have "10 * 2147483647 < 10 * c" by linarith
  then have "\<not> c \<le> INT_MAX" by (simp add: INT_MAX_def)
  then show ?thesis by (simp add: grow_size_ceiling c_def)
qed

lemma grow_size_Inl: "grow_size n = Inl e \<Longrightarrow> e = Undefined_Behaviour"
  by (simp add: grow_size_ceiling split: if_splits)

subsection \<open>\<^verbatim>\<open>InitVar\<close>\<close>

lemma InitVar_Inr:
  assumes "InitVar cfg s = Inr s'"
  shows "0 \<le> NPar_AcPlusInac s \<and>
         (Interp s = PAR_INTERP_NGP \<or> Interp s = PAR_INTERP_CIC \<or> Interp s = PAR_INTERP_TSC) \<and>
         s' = s \<lparr> NPar_Active := NPar_AcPlusInac s,
                  NPar_Inactive := 0,
                  ParListSize := NPar_AcPlusInac s,
                  InactiveParListSize := MAX_macro 1 (NPar_AcPlusInac s div 100),
                  GhostSize := (if Interp s = PAR_INTERP_NGP then 0 else 1),
                  ParVar := replicate (NPAR_VAR cfg) (malloc (fresh_real cfg) (NPar_AcPlusInac s)),
                  Passive := replicate (NPAR_PASSIVE cfg) (malloc (fresh_real cfg) (NPar_AcPlusInac s)),
                  InactiveParList := malloc (fresh_long cfg) (MAX_macro 1 (NPar_AcPlusInac s div 100)) \<rparr>"
  using assms
  by (auto simp: InitVar_def Let_def bind_err_Inr_iff split: if_splits ParInterp_t.splits)

lemma InitVar_pool_ok:
  assumes "InitVar cfg s = Inr s'" and "PAR_MASS < int (NPAR_VAR cfg)"
    and "length (NPar_Lv s) = NLEVEL cfg"
  shows "pool_ok cfg s'"
proof -
  from InitVar_Inr [OF assms(1)] assms(2,3) show ?thesis
    by (auto simp: pool_ok_def malloc_def MAX_macro_def)
qed

subsection \<open>\<^verbatim>\<open>RemoveOneParticle\<close>\<close>

lemma RemoveOneParticle_grow_fields:
  assumes "RemoveOneParticle_grow cfg s = Inr s1"
  shows "ParVar s1 = ParVar s" "Passive s1 = Passive s" "NPar_Lv s1 = NPar_Lv s"
    "NPar_Inactive s1 = NPar_Inactive s" "NPar_Active s1 = NPar_Active s"
    "NPar_AcPlusInac s1 = NPar_AcPlusInac s" "ParListSize s1 = ParListSize s"
  using assms
  by (auto simp: RemoveOneParticle_grow_def bind_err_Inr_iff split: if_splits)

lemma RemoveOneParticle_grow_size:
  assumes "RemoveOneParticle_grow cfg s = Inr s1"
  shows "InactiveParListSize s1 =
     (if NPar_Inactive s \<ge> InactiveParListSize s
      then \<lceil>PARLIST_GROWTH_FACTOR * real_of_int (InactiveParListSize s + 1)\<rceil>
      else InactiveParListSize s)"
    "InactiveParList s1 =
     (if NPar_Inactive s \<ge> InactiveParListSize s
      then realloc (fresh_long cfg) (InactiveParList s) (InactiveParListSize s1)
      else InactiveParList s)"
  using assms
  by (auto simp: RemoveOneParticle_grow_def bind_err_Inr_iff dest: grow_size_Inr(1)
      split: if_splits)

lemma RemoveOneParticle_grow_ok:
  assumes len: "int (length (InactiveParList s)) = InactiveParListSize s"
    and n: "NPar_Inactive s \<le> InactiveParListSize s"
    and g: "RemoveOneParticle_grow cfg s = Inr s1"
  shows "int (length (InactiveParList s1)) = InactiveParListSize s1"
    "NPar_Inactive s < InactiveParListSize s1"
    "take (nat (NPar_Inactive s)) (InactiveParList s1)
       = take (nat (NPar_Inactive s)) (InactiveParList s)"
proof -
  have "int (length (InactiveParList s1)) = InactiveParListSize s1 \<and>
    NPar_Inactive s < InactiveParListSize s1 \<and>
    take (nat (NPar_Inactive s)) (InactiveParList s1)
       = take (nat (NPar_Inactive s)) (InactiveParList s)"
  proof (cases "NPar_Inactive s \<ge> InactiveParListSize s")
    case True
    with g obtain m where m: "grow_size (InactiveParListSize s) = Inr m"
      and s1: "s1 = s \<lparr> InactiveParListSize := m,
                 InactiveParList := realloc (fresh_long cfg) (InactiveParList s) m \<rparr>"
      by (auto simp: RemoveOneParticle_grow_def bind_err_Inr_iff)
    from len have "0 \<le> InactiveParListSize s" by linarith
    from grow_size_Inr(3) [OF m this] have big: "InactiveParListSize s + 2 \<le> m" .
    with \<open>0 \<le> InactiveParListSize s\<close> have "0 \<le> m" by linarith
    from True n have eq: "NPar_Inactive s = InactiveParListSize s" by linarith
    have "take (nat (NPar_Inactive s)) (realloc (fresh_long cfg) (InactiveParList s) m)
       = take (nat (NPar_Inactive s)) (InactiveParList s)"
      using big len eq by (intro realloc_take) linarith+
    with big eq \<open>0 \<le> m\<close> show ?thesis
      by (simp add: s1 realloc_length)
  next
    case False
    with g have "s1 = s" by (simp add: RemoveOneParticle_grow_def)
    with False len show ?thesis by simp
  qed
  then show "int (length (InactiveParList s1)) = InactiveParListSize s1"
    "NPar_Inactive s < InactiveParListSize s1"
    "take (nat (NPar_Inactive s)) (InactiveParList s1)
       = take (nat (NPar_Inactive s)) (InactiveParList s)"
    by simp_all
qed

lemma RemoveOneParticle_grow_succeeds:
  assumes "0 \<le> InactiveParListSize s"
    and "NPar_Inactive s < InactiveParListSize s \<or> InactiveParListSize s < 1952257860"
  shows "\<exists>s1. RemoveOneParticle_grow cfg s = Inr s1"
proof (cases "NPar_Inactive s \<ge> InactiveParListSize s")
  case True
  with assms grow_size_succeeds [of "InactiveParListSize s"]
  obtain m where "grow_size (InactiveParListSize s) = Inr m" by auto
  with True show ?thesis by (simp add: RemoveOneParticle_grow_def)
next
  case False
  then show ?thesis by (simp add: RemoveOneParticle_grow_def)
qed

lemma RemoveOneParticle_grow_Inl:
  "RemoveOneParticle_grow cfg s = Inl e \<Longrightarrow> e = Undefined_Behaviour"
  by (auto simp: RemoveOneParticle_grow_def bind_err_Inl_iff dest: grow_size_Inl split: if_splits)

lemma RemoveOneParticle_body_Inr:
  assumes "RemoveOneParticle_body cfg s ParID Marker lv AveDens v = Inr (s', a')"
  shows "\<exists>s1. RemoveOneParticle_grow cfg s = Inr s1 \<and>
           0 \<le> NPar_Inactive s \<and> NPar_Inactive s < int (length (InactiveParList s1)) \<and>
           0 \<le> PAR_MASS \<and> PAR_MASS < int (length (ParVar s)) \<and>
           0 \<le> ParID \<and> ParID < int (length (ParVar s ! nat PAR_MASS)) \<and>
           (lv \<noteq> NULL_INT \<longrightarrow> 0 \<le> lv \<and> lv < int (length (NPar_Lv s))) \<and>
           s' = s1 \<lparr> InactiveParList := (InactiveParList s1)[nat (NPar_Inactive s) := ParID],
                     ParVar := (ParVar s)[nat PAR_MASS := (ParVar s ! nat PAR_MASS)[nat ParID := Marker]],
                     NPar_Active := NPar_Active s - 1,
                     NPar_Lv := (if lv \<noteq> NULL_INT then (NPar_Lv s)[nat lv := NPar_Lv s ! nat lv - 1]
                                 else NPar_Lv s),
                     NPar_Inactive := NPar_Inactive s + 1 \<rparr> \<and>
           a' = map_option (\<lambda>a. a - ParVar s ! nat PAR_MASS ! nat ParID * v) AveDens"
proof -
  from assms obtain s1 where g: "RemoveOneParticle_grow cfg s = Inr s1"
    unfolding RemoveOneParticle_body_def by (auto simp: bind_err_Inr_iff)
  note f = RemoveOneParticle_grow_fields [OF g]
  from assms g show ?thesis
    unfolding RemoveOneParticle_body_def
    by (auto simp: f bind_err_Inr_iff array_get_Inr_iff array_set_Inr_iff array_get2_Inr_iff
      array_set2_Inr_iff Let_def split: if_splits option.splits)
qed

lemma RemoveOneParticle_body_Inl:
  assumes "RemoveOneParticle_body cfg s ParID Marker lv AveDens v = Inl e"
  shows "e = Undefined_Behaviour \<or> e = Aux_Error Counter_Mismatch"
  using assms unfolding RemoveOneParticle_body_def
  by (auto simp: bind_err_Inl_iff Let_def
      dest: array_get_Inl array_set_Inl array_get2_Inl array_set2_Inl RemoveOneParticle_grow_Inl
      split: if_splits option.splits)

lemma RemoveOneParticle_body_NULL:
  "RemoveOneParticle_body cfg s ParID Marker lv None v = Inr (s', a') \<longleftrightarrow>
     a' = None \<and>
     RemoveOneParticle_body cfg s ParID Marker lv (Some A) v
       = Inr (s', Some (A - ParVar s ! nat PAR_MASS ! nat ParID * v))"
proof (cases "RemoveOneParticle_grow cfg s")
  case (Inl e)
  then show ?thesis by (simp add: RemoveOneParticle_body_def)
next
  case (Inr s1)
  note f = RemoveOneParticle_grow_fields [OF Inr]
  show ?thesis
    unfolding RemoveOneParticle_body_def Inr
    by (auto simp: f bind_err_Inr_iff array_get_Inr_iff array_set_Inr_iff array_get2_Inr_iff
      array_set2_Inr_iff Let_def split: if_splits)
qed

lemma RemoveOneParticle_Inr:
  assumes "RemoveOneParticle cfg s ParID Marker lv AveDens v = Inr (s', a')"
  shows "RemoveOneParticle_check cfg s ParID Marker = None"
    "RemoveOneParticle_body cfg s ParID Marker lv AveDens v = Inr (s', a')"
  using assms by (auto simp: RemoveOneParticle_def split: option.splits)

lemma RemoveOneParticle_counters:
  assumes "RemoveOneParticle cfg s ParID Marker lv AveDens v = Inr (s', a')"
  shows "NPar_Active s' = NPar_Active s - 1"
    "NPar_Inactive s' = NPar_Inactive s + 1"
    "NPar_AcPlusInac s' = NPar_AcPlusInac s"
    "lv \<noteq> NULL_INT \<Longrightarrow> 0 \<le> lv \<and> lv < int (length (NPar_Lv s))"
    "NPar_Lv s' = (if lv \<noteq> NULL_INT then (NPar_Lv s)[nat lv := NPar_Lv s ! nat lv - 1]
                   else NPar_Lv s)"
proof -
  from RemoveOneParticle_body_Inr [OF RemoveOneParticle_Inr(2) [OF assms]]
  obtain s1 where g: "RemoveOneParticle_grow cfg s = Inr s1"
    and lv: "lv \<noteq> NULL_INT \<longrightarrow> 0 \<le> lv \<and> lv < int (length (NPar_Lv s))"
    and s': "s' = s1 \<lparr> InactiveParList := (InactiveParList s1)[nat (NPar_Inactive s) := ParID],
                     ParVar := (ParVar s)[nat PAR_MASS := (ParVar s ! nat PAR_MASS)[nat ParID := Marker]],
                     NPar_Active := NPar_Active s - 1,
                     NPar_Lv := (if lv \<noteq> NULL_INT then (NPar_Lv s)[nat lv := NPar_Lv s ! nat lv - 1]
                                 else NPar_Lv s),
                     NPar_Inactive := NPar_Inactive s + 1 \<rparr>"
    by blast
  note f = RemoveOneParticle_grow_fields [OF g]
  show "NPar_Active s' = NPar_Active s - 1"
    "NPar_Inactive s' = NPar_Inactive s + 1"
    "NPar_AcPlusInac s' = NPar_AcPlusInac s"
    "lv \<noteq> NULL_INT \<Longrightarrow> 0 \<le> lv \<and> lv < int (length (NPar_Lv s))"
    "NPar_Lv s' = (if lv \<noteq> NULL_INT then (NPar_Lv s)[nat lv := NPar_Lv s ! nat lv - 1]
                   else NPar_Lv s)"
    using f lv by (simp_all add: s')
qed

lemma RemoveOneParticle_AveDens:
  assumes "RemoveOneParticle cfg s ParID Marker lv AveDens v = Inr (s', a')"
  shows "a' = map_option (\<lambda>A. A - Mass s ! nat ParID * v) AveDens"
    "Mass s' ! nat ParID = Marker"
proof -
  from RemoveOneParticle_body_Inr [OF RemoveOneParticle_Inr(2) [OF assms]]
  obtain s1 where
    m: "0 \<le> PAR_MASS" "PAR_MASS < int (length (ParVar s))"
    and i: "0 \<le> ParID" "ParID < int (length (ParVar s ! nat PAR_MASS))"
    and s': "s' = s1 \<lparr> InactiveParList := (InactiveParList s1)[nat (NPar_Inactive s) := ParID],
                     ParVar := (ParVar s)[nat PAR_MASS := (ParVar s ! nat PAR_MASS)[nat ParID := Marker]],
                     NPar_Active := NPar_Active s - 1,
                     NPar_Lv := (if lv \<noteq> NULL_INT then (NPar_Lv s)[nat lv := NPar_Lv s ! nat lv - 1]
                                 else NPar_Lv s),
                     NPar_Inactive := NPar_Inactive s + 1 \<rparr>"
    and a': "a' = map_option (\<lambda>a. a - ParVar s ! nat PAR_MASS ! nat ParID * v) AveDens"
    by blast
  from a' show "a' = map_option (\<lambda>A. A - Mass s ! nat ParID * v) AveDens"
    by (simp add: Mass_def)
  from m i show "Mass s' ! nat ParID = Marker"
    by (simp add: Mass_def s' PAR_MASS_def)
qed

lemma RemoveOneParticle_effect:
  assumes "RemoveOneParticle cfg s ParID Marker lv AveDens v = Inr (s', a')"
  shows "ParVar s' = (ParVar s)[nat PAR_MASS := (Mass s)[nat ParID := Marker]] \<and>
         (\<forall>k i. (k, i) \<noteq> (nat PAR_MASS, nat ParID) \<longrightarrow> ParVar s' ! k ! i = ParVar s ! k ! i) \<and>
         Mass s' ! nat ParID = Marker \<and>
         Passive s' = Passive s \<and>
         s' \<lparr> InactiveParListSize := InactiveParListSize s,
              InactiveParList := InactiveParList s,
              ParVar := ParVar s,
              NPar_Active := NPar_Active s,
              NPar_Lv := NPar_Lv s,
              NPar_Inactive := NPar_Inactive s \<rparr> = s \<and>
         NPar_Active s' = NPar_Active s - 1 \<and>
         NPar_Inactive s' = NPar_Inactive s + 1 \<and>
         NPar_Lv s' = (if lv = NULL_INT then NPar_Lv s
                       else (NPar_Lv s)[nat lv := NPar_Lv s ! nat lv - 1]) \<and>
         InactiveParList s' ! nat (NPar_Inactive s) = ParID \<and>
         (\<forall>k. k < length (InactiveParList s) \<and> k < length (InactiveParList s') \<and>
               k \<noteq> nat (NPar_Inactive s)
            \<longrightarrow> InactiveParList s' ! k = InactiveParList s ! k) \<and>
         InactiveParListSize s' =
           (if NPar_Inactive s \<ge> InactiveParListSize s
            then \<lceil>PARLIST_GROWTH_FACTOR * real_of_int (InactiveParListSize s + 1)\<rceil>
            else InactiveParListSize s)"
proof -
  from RemoveOneParticle_body_Inr [OF RemoveOneParticle_Inr(2) [OF assms]]
  obtain s1 where g: "RemoveOneParticle_grow cfg s = Inr s1"
    and n: "0 \<le> NPar_Inactive s" "NPar_Inactive s < int (length (InactiveParList s1))"
    and m: "0 \<le> PAR_MASS" "PAR_MASS < int (length (ParVar s))"
    and i: "0 \<le> ParID" "ParID < int (length (ParVar s ! nat PAR_MASS))"
    and s': "s' = s1 \<lparr> InactiveParList := (InactiveParList s1)[nat (NPar_Inactive s) := ParID],
                     ParVar := (ParVar s)[nat PAR_MASS := (ParVar s ! nat PAR_MASS)[nat ParID := Marker]],
                     NPar_Active := NPar_Active s - 1,
                     NPar_Lv := (if lv \<noteq> NULL_INT then (NPar_Lv s)[nat lv := NPar_Lv s ! nat lv - 1]
                                 else NPar_Lv s),
                     NPar_Inactive := NPar_Inactive s + 1 \<rparr>"
    by blast
  note f = RemoveOneParticle_grow_fields [OF g]
  note z = RemoveOneParticle_grow_size [OF g]
  have frame: "s1 \<lparr> InactiveParListSize := InactiveParListSize s,
                    InactiveParList := InactiveParList s \<rparr> = s"
    using g by (auto simp: RemoveOneParticle_grow_def bind_err_Inr_iff split: if_splits)
  have pv: "ParVar s' = (ParVar s)[nat PAR_MASS := (Mass s)[nat ParID := Marker]]"
    by (simp add: s' Mass_def)
  have cells: "\<forall>k i. (k, i) \<noteq> (nat PAR_MASS, nat ParID) \<longrightarrow> ParVar s' ! k ! i = ParVar s ! k ! i"
    using m by (auto simp: pv Mass_def nth_list_update)
  have mass: "Mass s' ! nat ParID = Marker"
    using RemoveOneParticle_AveDens(2) [OF assms] .
  have n': "nat (NPar_Inactive s) < length (InactiveParList s1)"
    using n by linarith
  have old: "\<forall>k. k < length (InactiveParList s) \<and> k < length (InactiveParList s') \<and>
               k \<noteq> nat (NPar_Inactive s)
            \<longrightarrow> InactiveParList s' ! k = InactiveParList s ! k"
    by (auto simp: s' z(2) realloc_def nth_append)
  have fr: "s' \<lparr> InactiveParListSize := InactiveParListSize s,
              InactiveParList := InactiveParList s,
              ParVar := ParVar s,
              NPar_Active := NPar_Active s,
              NPar_Lv := NPar_Lv s,
              NPar_Inactive := NPar_Inactive s \<rparr> = s"
    using frame by (simp add: s')
  from pv cells mass fr old n' z(1) show ?thesis
    by (simp add: s' f)
qed

lemma RemoveOneParticle_pool_ok:
  assumes ok: "pool_ok cfg s"
    and r: "RemoveOneParticle cfg s ParID Marker lv AveDens v = Inr (s', a')"
    and id: "ParID < NPar_AcPlusInac s"
  shows "pool_ok cfg s'"
proof -
  from RemoveOneParticle_body_Inr [OF RemoveOneParticle_Inr(2) [OF r]]
  obtain s1 where g: "RemoveOneParticle_grow cfg s = Inr s1"
    and n: "0 \<le> NPar_Inactive s" "NPar_Inactive s < int (length (InactiveParList s1))"
    and i: "0 \<le> ParID" "ParID < int (length (ParVar s ! nat PAR_MASS))"
    and lv: "lv \<noteq> NULL_INT \<longrightarrow> 0 \<le> lv \<and> lv < int (length (NPar_Lv s))"
    and s': "s' = s1 \<lparr> InactiveParList := (InactiveParList s1)[nat (NPar_Inactive s) := ParID],
                     ParVar := (ParVar s)[nat PAR_MASS := (ParVar s ! nat PAR_MASS)[nat ParID := Marker]],
                     NPar_Active := NPar_Active s - 1,
                     NPar_Lv := (if lv \<noteq> NULL_INT then (NPar_Lv s)[nat lv := NPar_Lv s ! nat lv - 1]
                                 else NPar_Lv s),
                     NPar_Inactive := NPar_Inactive s + 1 \<rparr>"
    by blast
  note f = RemoveOneParticle_grow_fields [OF g]
  from ok have len: "int (length (InactiveParList s)) = InactiveParListSize s"
    and le: "NPar_Inactive s \<le> InactiveParListSize s"
    by (simp_all add: pool_ok_def)
  note k = RemoveOneParticle_grow_ok [OF len le g]
  have mass: "nat PAR_MASS < length (ParVar s)"
    using ok by (simp add: pool_ok_def PAR_MASS_def)
  have pv: "\<forall>b \<in> set ((ParVar s)[nat PAR_MASS := (ParVar s ! nat PAR_MASS)[nat ParID := Marker]]).
              int (length b) = ParListSize s"
    using ok mass by (intro list_update_all) (simp_all add: pool_ok_def)
  have suc: "nat (NPar_Inactive s + 1) = Suc (nat (NPar_Inactive s))"
    using n(1) by linarith
  have n': "nat (NPar_Inactive s) < length (InactiveParList s1)"
    using n by linarith
  have ids: "\<forall>i \<in> set (take (nat (NPar_Inactive s + 1))
                 ((InactiveParList s1)[nat (NPar_Inactive s) := ParID])).
               0 \<le> i \<and> i < NPar_AcPlusInac s"
    using ok i(1) id by (simp add: suc take_Suc_update [OF n'] k(3) pool_ok_def)
  from ok pv ids k(1,2) show ?thesis
    by (simp add: pool_ok_def s' f)
qed

lemma RemoveOneParticle_succeeds:
  assumes ok: "pool_ok cfg s"
    and id: "0 \<le> ParID" "ParID < NPar_AcPlusInac s"
    and mk: "DEBUG_PARTICLE cfg \<longrightarrow> Marker = PAR_INACTIVE_OUTSIDE \<or> Marker = PAR_INACTIVE_MPI"
    and lv: "lv = NULL_INT \<or> (0 \<le> lv \<and> lv < int (NLEVEL cfg))"
    and sz: "NPar_Inactive s < InactiveParListSize s \<or> InactiveParListSize s < 1952257860"
  shows "\<exists>s' a'. RemoveOneParticle cfg s ParID Marker lv AveDens v = Inr (s', a')"
proof -
  from ok have len: "int (length (InactiveParList s)) = InactiveParListSize s"
    and le: "NPar_Inactive s \<le> InactiveParListSize s" and n0: "0 \<le> NPar_Inactive s"
    by (simp_all add: pool_ok_def)
  from len have "0 \<le> InactiveParListSize s" by linarith
  from RemoveOneParticle_grow_succeeds [OF this sz]
  obtain s1 where g: "RemoveOneParticle_grow cfg s = Inr s1" by blast
  note f = RemoveOneParticle_grow_fields [OF g]
  note k = RemoveOneParticle_grow_ok [OF len le g]
  have mass: "PAR_MASS < int (length (ParVar s))" "0 \<le> PAR_MASS"
    using ok by (simp_all add: pool_ok_def PAR_MASS_def)
  then have "ParVar s ! nat PAR_MASS \<in> set (ParVar s)" by (simp add: PAR_MASS_def)
  with ok have "int (length (ParVar s ! nat PAR_MASS)) = ParListSize s"
    by (simp add: pool_ok_def)
  with ok id have i: "ParID < int (length (ParVar s ! nat PAR_MASS))"
    by (simp add: pool_ok_def)
  from ok lv have lv': "lv \<noteq> NULL_INT \<longrightarrow> 0 \<le> lv \<and> lv < int (length (NPar_Lv s))"
    by (auto simp: pool_ok_def)
  from ok have sum: "NPar_Active s + NPar_Inactive s = NPar_AcPlusInac s"
    by (simp add: pool_ok_def)
  have chk: "RemoveOneParticle_check cfg s ParID Marker = None"
    using id mk by (auto simp: RemoveOneParticle_check_def)
  show ?thesis
    unfolding RemoveOneParticle_def chk RemoveOneParticle_body_def g
    using id(1) i mass lv' sum n0 k(1,2)
    by (cases AveDens)
      (auto simp: f array_get_def array_set_def array_get2_def array_set2_def Let_def)
qed

lemma RemoveOneParticle_room:
  assumes ok: "pool_ok cfg s"
    and r: "RemoveOneParticle cfg s ParID Marker lv AveDens v = Inr (s', a')"
  shows "NPar_Inactive s' < InactiveParListSize s' \<or> InactiveParListSize s' = InactiveParListSize s"
proof -
  from RemoveOneParticle_body_Inr [OF RemoveOneParticle_Inr(2) [OF r]]
  obtain s1 where g: "RemoveOneParticle_grow cfg s = Inr s1"
    and s': "s' = s1 \<lparr> InactiveParList := (InactiveParList s1)[nat (NPar_Inactive s) := ParID],
                     ParVar := (ParVar s)[nat PAR_MASS := (ParVar s ! nat PAR_MASS)[nat ParID := Marker]],
                     NPar_Active := NPar_Active s - 1,
                     NPar_Lv := (if lv \<noteq> NULL_INT then (NPar_Lv s)[nat lv := NPar_Lv s ! nat lv - 1]
                                 else NPar_Lv s),
                     NPar_Inactive := NPar_Inactive s + 1 \<rparr>"
    by blast
  show ?thesis
  proof (cases "NPar_Inactive s \<ge> InactiveParListSize s")
    case True
    with g obtain m where m: "grow_size (InactiveParListSize s) = Inr m"
      and s1: "InactiveParListSize s1 = m"
      by (auto simp: RemoveOneParticle_grow_def bind_err_Inr_iff)
    from ok have "0 \<le> InactiveParListSize s" "NPar_Inactive s \<le> InactiveParListSize s"
      by (simp_all add: pool_ok_def)
    with grow_size_Inr(3) [OF m] have "NPar_Inactive s + 2 \<le> m" by linarith
    then show ?thesis by (simp add: s' s1)
  next
    case False
    with g have "s1 = s" by (simp add: RemoveOneParticle_grow_def)
    then show ?thesis by (simp add: s')
  qed
qed

subsection \<open>\<^verbatim>\<open>AddOneParticle\<close>\<close>

lemma record_data_Inr:
  "record_data bs i xs = Inr bs' \<Longrightarrow>
     length bs \<le> length xs \<and> (\<forall>b \<in> set bs. 0 \<le> i \<and> i < int (length b)) \<and>
     bs' = map (\<lambda>(b, x). b[nat i := x]) (zip bs xs)"
proof (induction bs i xs arbitrary: bs' rule: record_data.induct)
  case (1 ParID New)
  then show ?case by simp
next
  case (2 b bs ParID)
  then show ?case by simp
next
  case (3 b bs ParID x xs)
  then show ?case
    by (auto simp: bind_err_Inr_iff array_set_Inr_iff)
qed


lemma record_data_nth:
  assumes "record_data bs i xs = Inr bs'" and "k < length bs"
  shows "length bs' = length bs" "nat i < length (bs ! k)" "length (bs' ! k) = length (bs ! k)"
    "bs' ! k ! nat i = xs ! k"
    "j \<noteq> nat i \<Longrightarrow> bs' ! k ! j = bs ! k ! j"
proof -
  from record_data_Inr [OF assms(1)] have len: "length bs \<le> length xs"
    and rng: "\<forall>b \<in> set bs. 0 \<le> i \<and> i < int (length b)"
    and bs': "bs' = map (\<lambda>(b, x). b[nat i := x]) (zip bs xs)"
    by simp_all
  from assms(2) have "bs ! k \<in> set bs" by simp
  with rng have "0 \<le> i \<and> i < int (length (bs ! k))" by blast
  then show i: "nat i < length (bs ! k)" by linarith
  from len show "length bs' = length bs" by (simp add: bs')
  from len assms(2) have k: "bs' ! k = (bs ! k)[nat i := xs ! k]" by (simp add: bs')
  then show "length (bs' ! k) = length (bs ! k)" by simp
  from k i show "bs' ! k ! nat i = xs ! k" by simp
  from k show "j \<noteq> nat i \<Longrightarrow> bs' ! k ! j = bs ! k ! j" by simp
qed

lemma record_data_lengths:
  "record_data bs i xs = Inr bs' \<Longrightarrow> \<forall>b \<in> set bs. int (length b) = L \<Longrightarrow>
     length bs' = length bs \<and> (\<forall>b \<in> set bs'. int (length b) = L)"
proof (induction bs i xs arbitrary: bs' rule: record_data.induct)
  case (1 ParID New)
  then show ?case by simp
next
  case (2 b bs ParID)
  then show ?case by simp
next
  case (3 b bs ParID x xs)
  then show ?case
    by (auto simp: bind_err_Inr_iff array_set_Inr_iff)
qed

lemma AddOneParticle_grow_fields:
  assumes "AddOneParticle_grow cfg s = Inr s1"
  shows "NPar_Lv s1 = NPar_Lv s"
    "NPar_Inactive s1 = NPar_Inactive s" "NPar_Active s1 = NPar_Active s"
    "NPar_AcPlusInac s1 = NPar_AcPlusInac s" "InactiveParList s1 = InactiveParList s"
    "InactiveParListSize s1 = InactiveParListSize s"
  using assms
  by (auto simp: AddOneParticle_grow_def bind_err_Inr_iff split: if_splits)

lemma AddOneParticle_grow_lengths:
  assumes "AddOneParticle_grow cfg s = Inr s1"
  shows "length (ParVar s1) = length (ParVar s)" "length (Passive s1) = length (Passive s)"
  using assms
  by (auto simp: AddOneParticle_grow_def bind_err_Inr_iff split: if_splits)

lemma AddOneParticle_grow_ok:
  assumes vars: "\<forall>b \<in> set (ParVar s). int (length b) = ParListSize s"
    and pass: "\<forall>b \<in> set (Passive s). int (length b) = ParListSize s"
    and n: "0 \<le> NPar_AcPlusInac s" "NPar_AcPlusInac s \<le> ParListSize s"
    and g: "AddOneParticle_grow cfg s = Inr s1"
  shows "\<forall>b \<in> set (ParVar s1). int (length b) = ParListSize s1"
    "\<forall>b \<in> set (Passive s1). int (length b) = ParListSize s1"
    "NPar_AcPlusInac s < ParListSize s1"
    "ParListSize s1 =
       (if NPar_AcPlusInac s \<ge> ParListSize s
        then \<lceil>PARLIST_GROWTH_FACTOR * real_of_int (ParListSize s + 1)\<rceil> else ParListSize s)"
    "k < length (ParVar s) \<Longrightarrow> i < nat (ParListSize s) \<Longrightarrow> ParVar s1 ! k ! i = ParVar s ! k ! i"
    "k < length (Passive s) \<Longrightarrow> i < nat (ParListSize s) \<Longrightarrow> Passive s1 ! k ! i = Passive s ! k ! i"
proof -
  have "(\<forall>b \<in> set (ParVar s1). int (length b) = ParListSize s1) \<and>
    (\<forall>b \<in> set (Passive s1). int (length b) = ParListSize s1) \<and>
    NPar_AcPlusInac s < ParListSize s1 \<and>
    ParListSize s1 =
       (if NPar_AcPlusInac s \<ge> ParListSize s
        then \<lceil>PARLIST_GROWTH_FACTOR * real_of_int (ParListSize s + 1)\<rceil> else ParListSize s) \<and>
    (k < length (ParVar s) \<longrightarrow> i < nat (ParListSize s) \<longrightarrow> ParVar s1 ! k ! i = ParVar s ! k ! i) \<and>
    (k < length (Passive s) \<longrightarrow> i < nat (ParListSize s) \<longrightarrow> Passive s1 ! k ! i = Passive s ! k ! i)"
  proof (cases "NPar_AcPlusInac s \<ge> ParListSize s")
    case True
    with g obtain m where m: "grow_size (ParListSize s) = Inr m"
      and s1: "s1 = s \<lparr> ParListSize := m,
                 ParVar := map (\<lambda>b. realloc (fresh_real cfg) b m) (ParVar s),
                 Passive := map (\<lambda>b. realloc (fresh_real cfg) b m) (Passive s) \<rparr>"
      by (auto simp: AddOneParticle_grow_def bind_err_Inr_iff)
    from n have size0: "0 \<le> ParListSize s" by linarith
    from grow_size_Inr(3) [OF m this] have big: "ParListSize s + 2 \<le> m" .
    with size0 have m0: "0 \<le> m" by linarith
    have keep: "realloc (fresh_real cfg) b m ! i = b ! i"
      if "int (length b) = ParListSize s" "i < nat (ParListSize s)" for b
      using that big by (intro realloc_nth) linarith+
    have v: "k < length (ParVar s) \<longrightarrow> i < nat (ParListSize s) \<longrightarrow>
        ParVar s1 ! k ! i = ParVar s ! k ! i"
      using vars keep by (simp add: s1)
    have p: "k < length (Passive s) \<longrightarrow> i < nat (ParListSize s) \<longrightarrow>
        Passive s1 ! k ! i = Passive s ! k ! i"
      using pass keep by (simp add: s1)
    from True n big m0 v p grow_size_Inr(1) [OF m] show ?thesis
      by (simp add: s1 realloc_length)
  next
    case False
    with g have "s1 = s" by (simp add: AddOneParticle_grow_def)
    with False vars pass show ?thesis by simp
  qed
  then show "\<forall>b \<in> set (ParVar s1). int (length b) = ParListSize s1"
    "\<forall>b \<in> set (Passive s1). int (length b) = ParListSize s1"
    "NPar_AcPlusInac s < ParListSize s1"
    "ParListSize s1 =
       (if NPar_AcPlusInac s \<ge> ParListSize s
        then \<lceil>PARLIST_GROWTH_FACTOR * real_of_int (ParListSize s + 1)\<rceil> else ParListSize s)"
    "k < length (ParVar s) \<Longrightarrow> i < nat (ParListSize s) \<Longrightarrow> ParVar s1 ! k ! i = ParVar s ! k ! i"
    "k < length (Passive s) \<Longrightarrow> i < nat (ParListSize s) \<Longrightarrow> Passive s1 ! k ! i = Passive s ! k ! i"
    by simp_all
qed


lemma AddOneParticle_ParID_counters:
  assumes "AddOneParticle_ParID cfg s = Inr (ParID, s1)"
  shows "NPar_Active s1 = NPar_Active s" "NPar_Lv s1 = NPar_Lv s"
    "NPar_AcPlusInac s1 - NPar_Inactive s1 = NPar_AcPlusInac s - NPar_Inactive s + 1"
proof -
  have "NPar_Active s1 = NPar_Active s \<and> NPar_Lv s1 = NPar_Lv s \<and>
    NPar_AcPlusInac s1 - NPar_Inactive s1 = NPar_AcPlusInac s - NPar_Inactive s + 1"
  proof (cases "NPar_Inactive s > 0")
    case True
    with assms show ?thesis
      by (auto simp: AddOneParticle_ParID_def bind_err_Inr_iff Let_def split: if_splits)
  next
    case False
    with assms obtain x where g: "AddOneParticle_grow cfg s = Inr x"
      and s1: "s1 = x\<lparr>NPar_AcPlusInac := NPar_AcPlusInac x + 1\<rparr>"
      by (auto simp: AddOneParticle_ParID_def bind_err_Inr_iff)
    show ?thesis
      by (simp add: s1 AddOneParticle_grow_fields [OF g])
  qed
  then show "NPar_Active s1 = NPar_Active s" "NPar_Lv s1 = NPar_Lv s"
    "NPar_AcPlusInac s1 - NPar_Inactive s1 = NPar_AcPlusInac s - NPar_Inactive s + 1"
    by simp_all
qed

lemma AddOneParticle_ParID_lengths:
  assumes "AddOneParticle_ParID cfg s = Inr (ParID, s1)"
  shows "length (ParVar s1) = length (ParVar s) \<and> length (Passive s1) = length (Passive s)"
proof (cases "NPar_Inactive s > 0")
  case True
  with assms show ?thesis
    by (auto simp: AddOneParticle_ParID_def bind_err_Inr_iff Let_def split: if_splits)
next
  case False
  with assms obtain x where g: "AddOneParticle_grow cfg s = Inr x"
    and s1: "s1 = x\<lparr>NPar_AcPlusInac := NPar_AcPlusInac x + 1\<rparr>"
    by (auto simp: AddOneParticle_ParID_def bind_err_Inr_iff)
  show ?thesis
    by (simp add: s1 AddOneParticle_grow_lengths [OF g])
qed


lemma AddOneParticle_ParID_new:
  assumes "\<not> 0 < NPar_Inactive s" and "AddOneParticle_ParID cfg s = Inr (ParID, s1)"
  shows "ParID = NPar_AcPlusInac s" "NPar_AcPlusInac s1 = NPar_AcPlusInac s + 1"
    "\<exists>x. AddOneParticle_grow cfg s = Inr x \<and> s1 = x \<lparr> NPar_AcPlusInac := NPar_AcPlusInac s + 1 \<rparr>"
proof -
  from assms obtain x where g: "AddOneParticle_grow cfg s = Inr x"
    and ParID: "ParID = NPar_AcPlusInac x"
    and s1: "s1 = x\<lparr>NPar_AcPlusInac := NPar_AcPlusInac x + 1\<rparr>"
    by (auto simp: AddOneParticle_ParID_def bind_err_Inr_iff)
  note f = AddOneParticle_grow_fields [OF g]
  show "ParID = NPar_AcPlusInac s" "NPar_AcPlusInac s1 = NPar_AcPlusInac s + 1"
    "\<exists>x. AddOneParticle_grow cfg s = Inr x \<and> s1 = x \<lparr> NPar_AcPlusInac := NPar_AcPlusInac s + 1 \<rparr>"
    using g by (simp_all add: ParID s1 f)
qed

lemma AddOneParticle_ParID_ok:
  assumes ok: "pool_ok cfg s" and id: "AddOneParticle_ParID cfg s = Inr (ParID, s1)"
  shows "0 \<le> ParID" "ParID < NPar_AcPlusInac s1"
    "pool_ok cfg (s1 \<lparr> NPar_Active := NPar_Active s + 1 \<rparr>)"
proof -
  have "0 \<le> ParID \<and> ParID < NPar_AcPlusInac s1 \<and>
    pool_ok cfg (s1 \<lparr> NPar_Active := NPar_Active s + 1 \<rparr>)"
  proof (cases "NPar_Inactive s > 0")
    case True
    with id have ParID: "ParID = InactiveParList s ! nat (NPar_Inactive s - 1)"
      and rng: "NPar_Inactive s - 1 < int (length (InactiveParList s))"
      and s1: "s1 = s \<lparr> NPar_Inactive := NPar_Inactive s - 1 \<rparr>"
      by (auto simp: AddOneParticle_ParID_def bind_err_Inr_iff array_get_Inr_iff Let_def
          split: if_splits)
    from True rng have "nat (NPar_Inactive s - 1) < length (take (nat (NPar_Inactive s)) (InactiveParList s))"
      by simp
    then have "take (nat (NPar_Inactive s)) (InactiveParList s) ! nat (NPar_Inactive s - 1)
        \<in> set (take (nat (NPar_Inactive s)) (InactiveParList s))"
      by (rule nth_mem)
    moreover from True have "nat (NPar_Inactive s - 1) < nat (NPar_Inactive s)" by linarith
    ultimately have mem: "ParID \<in> set (take (nat (NPar_Inactive s)) (InactiveParList s))"
      by (simp add: ParID)
    with ok have p: "0 \<le> ParID \<and> ParID < NPar_AcPlusInac s"
      by (simp add: pool_ok_def)
    have "set (take (nat (NPar_Inactive s - 1)) (InactiveParList s))
        \<subseteq> set (take (nat (NPar_Inactive s)) (InactiveParList s))"
      by (rule set_take_subset_set_take) linarith
    with ok True have "pool_ok cfg (s1 \<lparr> NPar_Active := NPar_Active s + 1 \<rparr>)"
      by (auto simp: pool_ok_def s1)
    with p show ?thesis by (simp add: s1)
  next
    case False
    with id obtain x where g: "AddOneParticle_grow cfg s = Inr x"
      and ParID: "ParID = NPar_AcPlusInac x"
      and s1: "s1 = x\<lparr>NPar_AcPlusInac := NPar_AcPlusInac x + 1\<rparr>"
      by (auto simp: AddOneParticle_ParID_def bind_err_Inr_iff)
    note f = AddOneParticle_grow_fields [OF g]
    note l = AddOneParticle_grow_lengths [OF g]
    from ok have vars: "\<forall>b \<in> set (ParVar s). int (length b) = ParListSize s"
      and pass: "\<forall>b \<in> set (Passive s). int (length b) = ParListSize s"
      and n: "0 \<le> NPar_AcPlusInac s" "NPar_AcPlusInac s \<le> ParListSize s"
      by (simp_all add: pool_ok_def)
    note k = AddOneParticle_grow_ok(1-3) [OF vars pass n g]
    from ok False have zero: "NPar_Inactive s = 0" by (simp add: pool_ok_def)
    from ok k zero show ?thesis
      by (simp add: pool_ok_def s1 ParID f l)
  qed
  then show "0 \<le> ParID" "ParID < NPar_AcPlusInac s1"
    "pool_ok cfg (s1 \<lparr> NPar_Active := NPar_Active s + 1 \<rparr>)"
    by simp_all
qed


lemma AddOneParticle_Inr:
  assumes "AddOneParticle cfg s NewVar NewPassive lv AveDens v = Inr (s', a')"
  shows "\<exists>ParID s1 pv pp a.
           AddOneParticle_check cfg s NewVar NewPassive AveDens = None \<and>
           AddOneParticle_ParID cfg s = Inr (ParID, s1) \<and>
           record_data (ParVar s1) ParID (pointee NewVar) = Inr pv \<and>
           record_data (Passive s1) ParID (pointee NewPassive) = Inr pp \<and>
           AveDens = Some a \<and>
           0 \<le> PAR_MASS \<and> PAR_MASS < int (length pv) \<and>
           0 \<le> ParID \<and> ParID < int (length (pv ! nat PAR_MASS)) \<and>
           0 \<le> lv \<and> lv < int (length (NPar_Lv s)) \<and>
           s' = s1 \<lparr> ParVar := pv, Passive := pp, NPar_Active := NPar_Active s + 1,
                     NPar_Lv := (NPar_Lv s)[nat lv := NPar_Lv s ! nat lv + 1] \<rparr> \<and>
           a' = Some (a + pv ! nat PAR_MASS ! nat ParID * v)"
proof -
  from assms obtain ParID s1 where g: "AddOneParticle_ParID cfg s = Inr (ParID, s1)"
    unfolding AddOneParticle_def by (auto simp: bind_err_Inr_iff split: option.splits)
  note f = AddOneParticle_ParID_counters [OF g]
  from assms g show ?thesis
    unfolding AddOneParticle_def
    by (auto simp: f deref_def bind_err_Inr_iff array_get_Inr_iff array_set_Inr_iff array_get2_Inr_iff
      Let_def split: if_splits option.splits)
qed

lemma AddOneParticle_counters:
  assumes "AddOneParticle cfg s NewVar NewPassive lv AveDens v = Inr (s', a')"
  shows "NPar_Active s' = NPar_Active s + 1"
    "NPar_AcPlusInac s' - NPar_Inactive s' = NPar_AcPlusInac s - NPar_Inactive s + 1"
    "0 \<le> lv" "lv < int (length (NPar_Lv s))"
    "NPar_Lv s' = (NPar_Lv s)[nat lv := NPar_Lv s ! nat lv + 1]"
proof -
  from AddOneParticle_Inr [OF assms] obtain ParID s1 pv pp
    where g: "AddOneParticle_ParID cfg s = Inr (ParID, s1)"
      and lv: "0 \<le> lv" "lv < int (length (NPar_Lv s))"
      and s': "s' = s1 \<lparr> ParVar := pv, Passive := pp, NPar_Active := NPar_Active s + 1,
                     NPar_Lv := (NPar_Lv s)[nat lv := NPar_Lv s ! nat lv + 1] \<rparr>"
    by blast
  note f = AddOneParticle_ParID_counters [OF g]
  show "NPar_Active s' = NPar_Active s + 1"
    "NPar_AcPlusInac s' - NPar_Inactive s' = NPar_AcPlusInac s - NPar_Inactive s + 1"
    "0 \<le> lv" "lv < int (length (NPar_Lv s))"
    "NPar_Lv s' = (NPar_Lv s)[nat lv := NPar_Lv s ! nat lv + 1]"
    using f lv by (simp_all add: s')
qed

lemma AddOneParticle_stored:
  assumes add: "AddOneParticle cfg s NewVar NewPassive lv AveDens v = Inr (s', a')"
    and id: "AddOneParticle_ParID cfg s = Inr (ParID, s1)"
  shows "length (ParVar s') = length (ParVar s)" "length (Passive s') = length (Passive s)"
    "k < length (ParVar s) \<Longrightarrow> ParVar s' ! k ! nat ParID = pointee NewVar ! k"
    "k < length (Passive s) \<Longrightarrow> Passive s' ! k ! nat ParID = pointee NewPassive ! k"
    "0 \<le> ParID" "PAR_MASS < int (length (ParVar s))"
    "\<exists>A. AveDens = Some A \<and> a' = Some (A + pointee NewVar ! nat PAR_MASS * v)"
proof -
  from AddOneParticle_Inr [OF add] id obtain pv pp a
    where pv: "record_data (ParVar s1) ParID (pointee NewVar) = Inr pv"
      and pp: "record_data (Passive s1) ParID (pointee NewPassive) = Inr pp"
      and a: "AveDens = Some a"
      and m: "0 \<le> PAR_MASS" "PAR_MASS < int (length pv)"
      and i: "0 \<le> ParID" "ParID < int (length (pv ! nat PAR_MASS))"
      and s': "s' = s1 \<lparr> ParVar := pv, Passive := pp, NPar_Active := NPar_Active s + 1,
                     NPar_Lv := (NPar_Lv s)[nat lv := NPar_Lv s ! nat lv + 1] \<rparr>"
      and a': "a' = Some (a + pv ! nat PAR_MASS ! nat ParID * v)"
    by auto
  note l = AddOneParticle_ParID_lengths [OF id]
  have lpv: "length pv = length (ParVar s)"
    using record_data_Inr [OF pv] l by simp
  have lpp: "length pp = length (Passive s)"
    using record_data_Inr [OF pp] l by simp
  show "length (ParVar s') = length (ParVar s)" "length (Passive s') = length (Passive s)"
    by (simp_all add: s' lpv lpp)
  show "k < length (ParVar s) \<Longrightarrow> ParVar s' ! k ! nat ParID = pointee NewVar ! k"
    using record_data_nth(4) [OF pv, of k] l by (simp add: s')
  show "k < length (Passive s) \<Longrightarrow> Passive s' ! k ! nat ParID = pointee NewPassive ! k"
    using record_data_nth(4) [OF pp, of k] l by (simp add: s')
  show "0 \<le> ParID" by fact
  from m lpv show mass: "PAR_MASS < int (length (ParVar s))" by simp
  from m mass l have "nat PAR_MASS < length (ParVar s1)" by (simp add: PAR_MASS_def)
  from record_data_nth(4) [OF pv this] a a'
  show "\<exists>A. AveDens = Some A \<and> a' = Some (A + pointee NewVar ! nat PAR_MASS * v)"
    by simp
qed


lemma AddOneParticle_NULL:
  "\<exists>e. AddOneParticle cfg s NewVar NewPassive lv None v = Inl e"
proof (cases "AddOneParticle cfg s NewVar NewPassive lv None v")
  case (Inl e)
  then show ?thesis by blast
next
  case (Inr r)
  obtain s' a' where "r = (s', a')" by (cases r)
  with Inr AddOneParticle_Inr [of cfg s NewVar NewPassive lv None v s' a']
  show ?thesis by simp
qed

lemma AddOneParticle_NULL_debug:
  assumes "DEBUG_PARTICLE cfg" "0 \<le> NPar_AcPlusInac s" "NewVar \<noteq> None"
    "NPAR_PASSIVE cfg = 0 \<or> NewPassive \<noteq> None"
  shows "AddOneParticle cfg s NewVar NewPassive lv None v = Inl (Aux_Error AveDens_Null)"
  using assms by (auto simp: AddOneParticle_def AddOneParticle_check_def)

lemma AddOneParticle_pool_ok:
  assumes ok: "pool_ok cfg s"
    and add: "AddOneParticle cfg s NewVar NewPassive lv AveDens v = Inr (s', a')"
  shows "pool_ok cfg s'"
proof -
  from AddOneParticle_Inr [OF add] obtain ParID s1 pv pp
    where id: "AddOneParticle_ParID cfg s = Inr (ParID, s1)"
      and pv: "record_data (ParVar s1) ParID (pointee NewVar) = Inr pv"
      and pp: "record_data (Passive s1) ParID (pointee NewPassive) = Inr pp"
      and s': "s' = s1 \<lparr> ParVar := pv, Passive := pp, NPar_Active := NPar_Active s + 1,
                     NPar_Lv := (NPar_Lv s)[nat lv := NPar_Lv s ! nat lv + 1] \<rparr>"
    by blast
  note f = AddOneParticle_ParID_counters [OF id]
  from AddOneParticle_ParID_ok(3) [OF ok id]
  have ok1: "pool_ok cfg (s1 \<lparr> NPar_Active := NPar_Active s + 1 \<rparr>)" .
  then have "\<forall>b \<in> set (ParVar s1). int (length b) = ParListSize s1"
    "\<forall>b \<in> set (Passive s1). int (length b) = ParListSize s1"
    by (simp_all add: pool_ok_def)
  from record_data_lengths [OF pv this(1)] record_data_lengths [OF pp this(2)] ok1
  show ?thesis
    by (simp add: pool_ok_def s' f)
qed


lemma AddOneParticle_new_slot:
  assumes ok: "pool_ok cfg s" and free: "NPar_Inactive s = 0"
    and add: "AddOneParticle cfg s NewVar NewPassive lv AveDens v = Inr (s', a')"
  shows "\<exists>s1. AddOneParticle_ParID cfg s = Inr (NPar_AcPlusInac s, s1)"
    "NPar_AcPlusInac s' = NPar_AcPlusInac s + 1"
    "ParListSize s' =
       (if NPar_AcPlusInac s \<ge> ParListSize s
        then \<lceil>PARLIST_GROWTH_FACTOR * real_of_int (ParListSize s + 1)\<rceil> else ParListSize s)"
    "length (ParVar s') = NPAR_VAR cfg" "length (Passive s') = NPAR_PASSIVE cfg"
    "\<forall>b \<in> set (ParVar s') \<union> set (Passive s'). int (length b) = ParListSize s'"
    "\<forall>k < NPAR_VAR cfg. \<forall>i < nat (NPar_AcPlusInac s). ParVar s' ! k ! i = ParVar s ! k ! i"
    "\<forall>k < NPAR_PASSIVE cfg. \<forall>i < nat (NPar_AcPlusInac s). Passive s' ! k ! i = Passive s ! k ! i"
    "\<forall>k < NPAR_VAR cfg. ParVar s' ! k ! nat (NPar_AcPlusInac s) = pointee NewVar ! k"
    "\<forall>k < NPAR_PASSIVE cfg. Passive s' ! k ! nat (NPar_AcPlusInac s) = pointee NewPassive ! k"
proof -
  from AddOneParticle_Inr [OF add] obtain ParID s1 pv pp
    where id: "AddOneParticle_ParID cfg s = Inr (ParID, s1)"
      and pv: "record_data (ParVar s1) ParID (pointee NewVar) = Inr pv"
      and pp: "record_data (Passive s1) ParID (pointee NewPassive) = Inr pp"
      and s': "s' = s1 \<lparr> ParVar := pv, Passive := pp, NPar_Active := NPar_Active s + 1,
                     NPar_Lv := (NPar_Lv s)[nat lv := NPar_Lv s ! nat lv + 1] \<rparr>"
    by blast
  from free have nofree: "\<not> 0 < NPar_Inactive s" by simp
  note new = AddOneParticle_ParID_new [OF nofree id]
  from new(3) obtain x where g: "AddOneParticle_grow cfg s = Inr x"
    and s1: "s1 = x \<lparr> NPar_AcPlusInac := NPar_AcPlusInac s + 1 \<rparr>" by blast
  from ok have vars: "\<forall>b \<in> set (ParVar s). int (length b) = ParListSize s"
    and pass: "\<forall>b \<in> set (Passive s). int (length b) = ParListSize s"
    and n: "0 \<le> NPar_AcPlusInac s" "NPar_AcPlusInac s \<le> ParListSize s"
    and lens: "length (ParVar s) = NPAR_VAR cfg" "length (Passive s) = NPAR_PASSIVE cfg"
    by (simp_all add: pool_ok_def)
  note k = AddOneParticle_grow_ok [OF vars pass n g]
  note l = AddOneParticle_grow_lengths [OF g]
  note st = AddOneParticle_stored [OF add id]
  from id new(1) show "\<exists>s1. AddOneParticle_ParID cfg s = Inr (NPar_AcPlusInac s, s1)" by auto
  show "NPar_AcPlusInac s' = NPar_AcPlusInac s + 1" by (simp add: s' s1)
  show "ParListSize s' =
       (if NPar_AcPlusInac s \<ge> ParListSize s
        then \<lceil>PARLIST_GROWTH_FACTOR * real_of_int (ParListSize s + 1)\<rceil> else ParListSize s)"
    using k(4) by (simp add: s' s1)
  from st(1,2) lens show "length (ParVar s') = NPAR_VAR cfg" "length (Passive s') = NPAR_PASSIVE cfg"
    by simp_all
  from k(1,2) have "\<forall>b \<in> set (ParVar s1). int (length b) = ParListSize s1"
    "\<forall>b \<in> set (Passive s1). int (length b) = ParListSize s1" by (simp_all add: s1)
  from record_data_lengths [OF pv this(1)] record_data_lengths [OF pp this(2)]
  show "\<forall>b \<in> set (ParVar s') \<union> set (Passive s'). int (length b) = ParListSize s'"
    by (auto simp: s')
  have old: "i \<noteq> nat ParID" if "i < nat (NPar_AcPlusInac s)" for i
    using that n(1) by (simp add: new(1))
  show "\<forall>k < NPAR_VAR cfg. \<forall>i < nat (NPar_AcPlusInac s). ParVar s' ! k ! i = ParVar s ! k ! i"
  proof (intro allI impI)
    fix k i assume ki: "k < NPAR_VAR cfg" "i < nat (NPar_AcPlusInac s)"
    with lens l have "k < length (ParVar s1)" by (simp add: s1)
    from record_data_nth(5) [OF pv this old [OF ki(2)]]
    have "ParVar s' ! k ! i = ParVar x ! k ! i" by (simp add: s' s1)
    also from ki lens n have "\<dots> = ParVar s ! k ! i" by (intro k(5)) simp_all
    finally show "ParVar s' ! k ! i = ParVar s ! k ! i" .
  qed
  show "\<forall>k < NPAR_PASSIVE cfg. \<forall>i < nat (NPar_AcPlusInac s). Passive s' ! k ! i = Passive s ! k ! i"
  proof (intro allI impI)
    fix k i assume ki: "k < NPAR_PASSIVE cfg" "i < nat (NPar_AcPlusInac s)"
    with lens l have "k < length (Passive s1)" by (simp add: s1)
    from record_data_nth(5) [OF pp this old [OF ki(2)]]
    have "Passive s' ! k ! i = Passive x ! k ! i" by (simp add: s' s1)
    also from ki lens n have "\<dots> = Passive s ! k ! i" by (intro k(6)) simp_all
    finally show "Passive s' ! k ! i = Passive s ! k ! i" .
  qed
  from st(3) lens new(1) show "\<forall>k < NPAR_VAR cfg. ParVar s' ! k ! nat (NPar_AcPlusInac s) = pointee NewVar ! k"
    by simp
  from st(4) lens new(1) show "\<forall>k < NPAR_PASSIVE cfg. Passive s' ! k ! nat (NPar_AcPlusInac s) = pointee NewPassive ! k"
    by simp
qed

lemma AddOneParticle_overflow:
  assumes chk: "AddOneParticle_check cfg s NewVar NewPassive AveDens = None"
    and free: "NPar_Inactive s \<le> 0"
    and full: "ParListSize s \<le> NPar_AcPlusInac s"
    and big: "1952257860 \<le> ParListSize s"
  shows "AddOneParticle cfg s NewVar NewPassive lv AveDens v = Inl Undefined_Behaviour"
proof -
  from full grow_size_overflow [OF big] have "AddOneParticle_grow cfg s = Inl Undefined_Behaviour"
    by (simp add: AddOneParticle_grow_def)
  with free have "AddOneParticle_ParID cfg s = Inl Undefined_Behaviour"
    by (simp add: AddOneParticle_ParID_def)
  with chk show ?thesis by (simp add: AddOneParticle_def)
qed


subsection \<open>Sequences of calls\<close>

lemma step_counters:
  assumes "step cfg (s, d) c = Inr (s', d')"
  shows "NPar_AcPlusInac s' - NPar_Active s' - NPar_Inactive s'
           = NPar_AcPlusInac s - NPar_Active s - NPar_Inactive s"
proof (cases c)
  case (Add NewVar NewPassive lv pass v)
  with assms obtain a where
    "AddOneParticle cfg s NewVar NewPassive lv (AveDens_arg pass d) v = Inr (s', a)"
    by (auto simp: bind_err_Inr_iff)
  from AddOneParticle_counters(1,2) [OF this] show ?thesis by simp
next
  case (Remove ParID Marker lv pass v)
  with assms obtain a where
    "RemoveOneParticle cfg s ParID Marker lv (AveDens_arg pass d) v = Inr (s', a)"
    by (auto simp: bind_err_Inr_iff)
  from RemoveOneParticle_counters(1,2,3) [OF this] show ?thesis by simp
qed

lemma run_counters:
  "run cfg (s, d) cs = Inr (s', d') \<Longrightarrow>
     NPar_AcPlusInac s' - NPar_Active s' - NPar_Inactive s'
       = NPar_AcPlusInac s - NPar_Active s - NPar_Inactive s"
proof (induction cs arbitrary: s d)
  case Nil
  then show ?case by simp
next
  case (Cons c cs)
  from Cons.prems obtain s1 d1 where 1: "step cfg (s, d) c = Inr (s1, d1)"
    and 2: "run cfg (s1, d1) cs = Inr (s', d')"
    by (auto simp: bind_err_Inr_iff)
  from Cons.IH [OF 2] step_counters [OF 1] show ?case by simp
qed

lemma step_levels:
  assumes "step cfg (s, d) c = Inr (s', d')" and "level_tracked c"
  shows "sum_list (NPar_Lv s') - NPar_Active s' = sum_list (NPar_Lv s) - NPar_Active s"
proof (cases c)
  case (Add NewVar NewPassive lv pass v)
  with assms obtain a where
    "AddOneParticle cfg s NewVar NewPassive lv (AveDens_arg pass d) v = Inr (s', a)"
    by (auto simp: bind_err_Inr_iff)
  note f = AddOneParticle_counters [OF this]
  from f(3,4) have "nat lv < length (NPar_Lv s)" by linarith
  then show ?thesis
    by (simp add: f(1,5) sum_list_bump)
next
  case (Remove ParID Marker lv pass v)
  with assms obtain a where
    r: "RemoveOneParticle cfg s ParID Marker lv (AveDens_arg pass d) v = Inr (s', a)"
    by (auto simp: bind_err_Inr_iff)
  from assms(2) Remove have lv: "lv \<noteq> NULL_INT" by simp
  note f = RemoveOneParticle_counters [OF r]
  from f(4) [OF lv] have "nat lv < length (NPar_Lv s)" by linarith
  then show ?thesis
    using sum_list_bump [of "nat lv" "NPar_Lv s" "- 1"] by (simp add: f(1,5) lv)
qed

lemma run_levels:
  "run cfg (s, d) cs = Inr (s', d') \<Longrightarrow> \<forall>c \<in> set cs. level_tracked c \<Longrightarrow>
     sum_list (NPar_Lv s') - NPar_Active s' = sum_list (NPar_Lv s) - NPar_Active s"
proof (induction cs arbitrary: s d)
  case Nil
  then show ?case by simp
next
  case (Cons c cs)
  from Cons.prems(1) obtain s1 d1 where 1: "step cfg (s, d) c = Inr (s1, d1)"
    and 2: "run cfg (s1, d1) cs = Inr (s', d')"
    by (auto simp: bind_err_Inr_iff)
  from Cons.prems(2) have c: "level_tracked c" and cs: "\<forall>c \<in> set cs. level_tracked c"
    by simp_all
  from Cons.IH [OF 2 cs] step_levels [OF 1 c] show ?case by simp
qed

text \<open>
  In the debug build every state reached from a well-formed pool is well-formed: the
  checks of \<^verbatim>\<open>RemoveOneParticle\<close> let only particle IDs onto the free list.
\<close>

lemma step_pool_ok:
  assumes "DEBUG_PARTICLE cfg" and "pool_ok cfg s" and "step cfg (s, d) c = Inr (s', d')"
  shows "pool_ok cfg s'"
proof (cases c)
  case (Add NewVar NewPassive lv pass v)
  with assms(3) obtain a where
    "AddOneParticle cfg s NewVar NewPassive lv (AveDens_arg pass d) v = Inr (s', a)"
    by (auto simp: bind_err_Inr_iff)
  from AddOneParticle_pool_ok [OF assms(2) this] show ?thesis .
next
  case (Remove ParID Marker lv pass v)
  with assms(3) obtain a where
    r: "RemoveOneParticle cfg s ParID Marker lv (AveDens_arg pass d) v = Inr (s', a)"
    by (auto simp: bind_err_Inr_iff)
  from RemoveOneParticle_Inr(1) [OF r] assms(1) have "ParID < NPar_AcPlusInac s"
    by (auto simp: RemoveOneParticle_check_def split: if_splits)
  from RemoveOneParticle_pool_ok [OF assms(2) r this] show ?thesis .
qed

lemma run_pool_ok:
  "DEBUG_PARTICLE cfg \<Longrightarrow> pool_ok cfg s \<Longrightarrow> run cfg (s, d) cs = Inr (s', d') \<Longrightarrow>
     pool_ok cfg s'"
proof (induction cs arbitrary: s d)
  case Nil
  then show ?case by simp
next
  case (Cons c cs)
  from Cons.prems(3) obtain s1 d1 where 1: "step cfg (s, d) c = Inr (s1, d1)"
    and 2: "run cfg (s1, d1) cs = Inr (s', d')"
    by (auto simp: bind_err_Inr_iff)
  from step_pool_ok [OF Cons.prems(1,2) 1] have "pool_ok cfg s1" .
  from Cons.IH [OF Cons.prems(1) this 2] show ?case .
qed

subsection \<open>The example pools, evaluated\<close>

lemmas call_defs =
  AddOneParticle_def AddOneParticle_check_def AddOneParticle_ParID_def AddOneParticle_grow_def
  RemoveOneParticle_def RemoveOneParticle_check_def RemoveOneParticle_body_def
  RemoveOneParticle_grow_def grow_size_eval INT_MIN_def INT_MAX_def NULL_INT_def
  array_get_def array_set_def array_get2_def array_set2_def realloc_def pointee_def deref_def
  PAR_MASS_def PAR_INACTIVE_OUTSIDE_def PAR_INACTIVE_MPI_def Let_def replicate_numeral

lemma InitVar_ex: "InitVar cfg_ex start_ex = Inr pool0_ex"
  by (simp add: InitVar_def start_ex_def Particle_t_constructor_def raw_ex_def cfg_ex_def
      pool0_ex_def MAX_macro_def malloc_def Let_def replicate_numeral)

lemma InitVar_one_ex: "InitVar cfg_ex start_one_ex = Inr one_ex"
  by (simp add: InitVar_def start_one_ex_def start_ex_def Particle_t_constructor_def raw_ex_def
      cfg_ex_def one_ex_def MAX_macro_def malloc_def Let_def replicate_numeral)

lemma add1_ex:
  "AddOneParticle cfg_ex pool0_ex (particle_ex 10) (Some [1 / 2]) 0 (Some 0) (1 / 2)
     = Inr (pool1_ex, Some 5)"
  by (simp add: call_defs cfg_ex_def particle_ex_def pool0_ex_def pool1_ex_def)

lemma add2_ex:
  "AddOneParticle cfg_ex pool1_ex (particle_ex 20) (Some [1 / 4]) 1 (Some 5) (1 / 2)
     = Inr (pool2_ex, Some 15)"
  by (simp add: call_defs cfg_ex_def particle_ex_def pool1_ex_def pool2_ex_def)

lemma remove3_ex:
  "RemoveOneParticle cfg_ex pool2_ex 1 (- 1) 1 (Some 15) (1 / 2) = Inr (pool3_ex, Some 5)"
  by (simp add: call_defs cfg_ex_def pool2_ex_def pool3_ex_def)

lemma remove3_NULL_ex:
  "RemoveOneParticle cfg_ex pool2_ex 1 (- 1) 1 None (1 / 2) = Inr (pool3_ex, None)"
  by (simp add: call_defs cfg_ex_def pool2_ex_def pool3_ex_def)

lemma remove4_ex:
  "RemoveOneParticle cfg_ex pool3_ex 0 (- 2) NULL_INT None (1 / 2) = Inr (pool4_ex, None)"
  by (simp add: call_defs cfg_ex_def pool3_ex_def pool4_ex_def)


lemma tracked_run_ex: "run cfg_ex (pool0_ex, 0) tracked_ex = Inr (pool3_ex, 5)"
  by (simp add: tracked_ex_def add1_ex add2_ex remove3_ex AveDens_arg_def AveDens_result_def)

lemma run_ex: "run cfg_ex (pool0_ex, 0) calls_ex = Inr (pool4_ex, 5)"
  by (simp add: calls_ex_def tracked_ex_def add1_ex add2_ex remove3_ex remove4_ex
      AveDens_arg_def AveDens_result_def)

lemma pool_ok_ex: "pool_ok cfg_ex pool0_ex" "pool_ok cfg_ex pool2_ex" "pool_ok cfg_ex pool3_ex"
  by (simp_all add: pool_ok_def cfg_ex_def pool0_ex_def pool2_ex_def pool3_ex_def PAR_MASS_def)

lemma replicate_3: "replicate 3 x = [x, x, x]"
  by (simp add: numeral_3_eq_3)

lemma InitVar_big_ex: "InitVar cfg_ex start_big_ex = Inr big_ex"
  by (simp add: InitVar_def start_big_ex_def start_ex_def Particle_t_constructor_def raw_ex_def
      cfg_ex_def big_ex_def MAX_macro_def malloc_def Let_def replicate_3)

lemma ParID0_ex: "\<exists>t1. AddOneParticle_ParID cfg_ex pool0_ex = Inr (0, t1)"
  by (simp add: call_defs cfg_ex_def pool0_ex_def)


lemma marker_ex:
  "DEBUG_PARTICLE cfg_ex \<longrightarrow> - 1 = PAR_INACTIVE_OUTSIDE \<or> - 1 = PAR_INACTIVE_MPI"
  "DEBUG_PARTICLE cfg_ex \<longrightarrow> - 2 = PAR_INACTIVE_OUTSIDE \<or> - 2 = PAR_INACTIVE_MPI"
  by (simp_all add: PAR_INACTIVE_OUTSIDE_def PAR_INACTIVE_MPI_def)

lemma level_ex:
  "(1::int) = NULL_INT \<or> (0 \<le> (1::int) \<and> 1 < int (NLEVEL cfg_ex))"
  "NULL_INT = NULL_INT \<or> (0 \<le> NULL_INT \<and> NULL_INT < int (NLEVEL cfg_ex))"
  "(0::int) \<le> 2 \<and> 2 < int (NLEVEL cfg_ex)"
  by (simp_all add: cfg_ex_def)


section \<open>The claims\<close>

text \<open>
  C1. From the state that \<^verbatim>\<open>InitVar\<close> establishes, where \<^verbatim>\<open>NPar_Active\<close> equals
  \<^verbatim>\<open>NPar_AcPlusInac\<close> and \<^verbatim>\<open>NPar_Inactive\<close> is 0, every sequence of \<^verbatim>\<open>AddOneParticle\<close>
  and \<^verbatim>\<open>RemoveOneParticle\<close> calls that return, whatever their arguments (the level
  \<^verbatim>\<open>NULL_INT\<close> included), ends with
  \<^verbatim>\<open>NPar_Active + NPar_Inactive == NPar_AcPlusInac\<close>. The list of calls is arbitrary,
  so this is the state after each call of a sequence.
\<close>

theorem counters_add_up:
  assumes "InitVar cfg s0 = Inr s" and "run cfg (s, d) cs = Inr (s', d')"
  shows "NPar_Active s = NPar_AcPlusInac s \<and> NPar_Inactive s = 0 \<and>
         NPar_Active s' + NPar_Inactive s' = NPar_AcPlusInac s'"
proof -
  from InitVar_Inr [OF assms(1)] have "NPar_Active s = NPar_AcPlusInac s" "NPar_Inactive s = 0"
    by simp_all
  with run_counters [OF assms(2)] show ?thesis by simp
qed

text \<open>The calls of \<open>calls_ex\<close> end with a removal at level \<^verbatim>\<open>NULL_INT\<close>.\<close>

theorem counters_add_up_witness:
  "InitVar cfg_ex start_ex = Inr pool0_ex \<and>
   run cfg_ex (pool0_ex, 0) calls_ex = Inr (pool4_ex, 5) \<and>
   NPar_Active pool0_ex = NPar_AcPlusInac pool0_ex \<and> NPar_Inactive pool0_ex = 0 \<and>
   NPar_Active pool4_ex + NPar_Inactive pool4_ex = NPar_AcPlusInac pool4_ex"
  using counters_add_up [OF InitVar_ex run_ex] InitVar_ex run_ex by simp

text \<open>
  C2, as amended. The claim is that the sum of \<^verbatim>\<open>NPar_Lv\<close> over all levels equals
  \<^verbatim>\<open>NPar_Active\<close> after every sequence of calls from \<^verbatim>\<open>InitVar\<close>, removals at level
  \<^verbatim>\<open>NULL_INT\<close> included. What holds: from a state in which the sum equals
  \<^verbatim>\<open>NPar_Active\<close>, it does so again after every sequence of calls none of which is a
  \<^verbatim>\<open>RemoveOneParticle\<close> at level \<^verbatim>\<open>NULL_INT\<close>; such a removal decrements \<^verbatim>\<open>NPar_Active\<close>
  and leaves \<^verbatim>\<open>NPar_Lv\<close> as it is.
\<close>

theorem levels_add_up:
  "(sum_list (NPar_Lv s) = NPar_Active s \<and> run cfg (s, d) cs = Inr (s', d') \<and>
      (\<forall>c \<in> set cs. level_tracked c)
     \<longrightarrow> sum_list (NPar_Lv s') = NPar_Active s') \<and>
   (RemoveOneParticle cfg t ParID Marker NULL_INT AveDens v = Inr (t', a')
     \<longrightarrow> NPar_Lv t' = NPar_Lv t \<and> NPar_Active t' = NPar_Active t - 1)"
proof (intro conjI impI)
  assume "sum_list (NPar_Lv s) = NPar_Active s \<and> run cfg (s, d) cs = Inr (s', d') \<and>
      (\<forall>c \<in> set cs. level_tracked c)"
  then show "sum_list (NPar_Lv s') = NPar_Active s'"
    using run_levels [of cfg s d cs s' d'] by simp
next
  assume r: "RemoveOneParticle cfg t ParID Marker NULL_INT AveDens v = Inr (t', a')"
  from RemoveOneParticle_counters(5) [OF r] show "NPar_Lv t' = NPar_Lv t" by simp
  from RemoveOneParticle_counters(1) [OF r] show "NPar_Active t' = NPar_Active t - 1" .
qed

theorem levels_add_up_witness:
  "sum_list (NPar_Lv pool0_ex) = NPar_Active pool0_ex \<and>
   run cfg_ex (pool0_ex, 0) tracked_ex = Inr (pool3_ex, 5) \<and>
   list_all level_tracked tracked_ex \<and>
   sum_list (NPar_Lv pool3_ex) = NPar_Active pool3_ex \<and>
   RemoveOneParticle cfg_ex pool3_ex 0 (- 2) NULL_INT None (1 / 2) = Inr (pool4_ex, None) \<and>
   NPar_Lv pool4_ex = NPar_Lv pool3_ex \<and> NPar_Active pool4_ex = NPar_Active pool3_ex - 1"
proof -
  have start: "sum_list (NPar_Lv pool0_ex) = NPar_Active pool0_ex"
    by (simp add: pool0_ex_def)
  have tracked: "list_all level_tracked tracked_ex"
    by (simp add: tracked_ex_def NULL_INT_def INT_MAX_def)
  then have "\<forall>c \<in> set tracked_ex. level_tracked c"
    by (simp add: list_all_iff)
  with start tracked_run_ex remove4_ex tracked
    levels_add_up [of pool0_ex cfg_ex 0 tracked_ex pool3_ex 5 pool3_ex 0 "- 2" None "1 / 2"
      pool4_ex None]
  show ?thesis by blast
qed

text \<open>
  The claim as stated fails on the calls of \<open>calls_ex\<close>: two additions, a removal at
  level 1 and a removal at level \<^verbatim>\<open>NULL_INT\<close>. It fails on the empty sequence of calls
  too when \<^verbatim>\<open>InitVar\<close> is called for one particle: \<^verbatim>\<open>InitVar\<close> sets \<^verbatim>\<open>NPar_Active\<close> and
  leaves \<^verbatim>\<open>NPar_Lv\<close> as the constructor has set it.
\<close>

theorem levels_counterexample:
  "InitVar cfg_ex start_ex = Inr pool0_ex \<and>
   sum_list (NPar_Lv pool0_ex) = NPar_Active pool0_ex \<and>
   run cfg_ex (pool0_ex, 0) calls_ex = Inr (pool4_ex, 5) \<and>
   sum_list (NPar_Lv pool4_ex) = 1 \<and> NPar_Active pool4_ex = 0 \<and>
   InitVar cfg_ex start_one_ex = Inr one_ex \<and>
   sum_list (NPar_Lv one_ex) = 0 \<and> NPar_Active one_ex = 1"
  using InitVar_ex run_ex InitVar_one_ex by (simp add: pool0_ex_def pool4_ex_def one_ex_def)

text \<open>
  C3, as amended. The claim is that both calls skip the density update and complete
  when \<^verbatim>\<open>AveDens\<close> is null. What holds: \<^verbatim>\<open>RemoveOneParticle\<close> with a null \<^verbatim>\<open>AveDens\<close>
  returns exactly when it does with a reference, in the same state, and touches no
  density; with a reference it subtracts \<^verbatim>\<open>Mass[ParID] * _BoxVolume\<close>, read before the
  mass is overwritten with the marker. \<^verbatim>\<open>AddOneParticle\<close> with a null \<^verbatim>\<open>AveDens\<close> never
  returns: the debug build stops with \<^verbatim>\<open>AveDens == NULL\<close> once the earlier checks have
  passed, and the other build dereferences the pointer. With a reference it adds
  \<^verbatim>\<open>Mass[ParID] * _BoxVolume\<close>, the mass just recorded.
\<close>

theorem density_update:
  "(RemoveOneParticle cfg s ParID Marker lv None v = Inr (sR, aR) \<longleftrightarrow>
      aR = None \<and>
      RemoveOneParticle cfg s ParID Marker lv (Some A) v
        = Inr (sR, Some (A - Mass s ! nat ParID * v))) \<and>
   (RemoveOneParticle cfg s ParID Marker lv (Some A) v = Inr (sR', aR')
      \<longrightarrow> aR' = Some (A - Mass s ! nat ParID * v) \<and> Mass sR' ! nat ParID = Marker) \<and>
   (pool_ok cfg s \<and> 0 \<le> ParID \<and> ParID < NPar_AcPlusInac s \<and>
    (DEBUG_PARTICLE cfg \<longrightarrow> Marker = PAR_INACTIVE_OUTSIDE \<or> Marker = PAR_INACTIVE_MPI) \<and>
    (lv = NULL_INT \<or> (0 \<le> lv \<and> lv < int (NLEVEL cfg))) \<and>
    (NPar_Inactive s < InactiveParListSize s \<or> InactiveParListSize s < 1952257860)
      \<longrightarrow> (\<exists>s'. RemoveOneParticle cfg s ParID Marker lv None v = Inr (s', None))) \<and>
   (\<exists>e. AddOneParticle cfg t NewVar NewPassive lvA None v = Inl e) \<and>
   (DEBUG_PARTICLE cfg \<and> 0 \<le> NPar_AcPlusInac t \<and> NewVar \<noteq> None \<and>
      (NPAR_PASSIVE cfg = 0 \<or> NewPassive \<noteq> None)
      \<longrightarrow> AddOneParticle cfg t NewVar NewPassive lvA None v = Inl (Aux_Error AveDens_Null)) \<and>
   (AddOneParticle cfg t NewVar NewPassive lvA (Some B) v = Inr (tA, aA) \<and>
      (\<exists>t1. AddOneParticle_ParID cfg t = Inr (ParIDA, t1))
      \<longrightarrow> aA = Some (B + Mass tA ! nat ParIDA * v) \<and>
          Mass tA ! nat ParIDA = pointee NewVar ! nat PAR_MASS)"
proof (intro conjI impI)
  show "RemoveOneParticle cfg s ParID Marker lv None v = Inr (sR, aR) \<longleftrightarrow>
      aR = None \<and>
      RemoveOneParticle cfg s ParID Marker lv (Some A) v
        = Inr (sR, Some (A - Mass s ! nat ParID * v))"
    using RemoveOneParticle_body_NULL [of cfg s ParID Marker lv v sR aR A]
    by (simp add: RemoveOneParticle_def Mass_def split: option.splits)
next
  assume r: "RemoveOneParticle cfg s ParID Marker lv (Some A) v = Inr (sR', aR')"
  from RemoveOneParticle_AveDens [OF r]
  show "aR' = Some (A - Mass s ! nat ParID * v)" "Mass sR' ! nat ParID = Marker"
    by simp_all
next
  assume a: "pool_ok cfg s \<and> 0 \<le> ParID \<and> ParID < NPar_AcPlusInac s \<and>
    (DEBUG_PARTICLE cfg \<longrightarrow> Marker = PAR_INACTIVE_OUTSIDE \<or> Marker = PAR_INACTIVE_MPI) \<and>
    (lv = NULL_INT \<or> (0 \<le> lv \<and> lv < int (NLEVEL cfg))) \<and>
    (NPar_Inactive s < InactiveParListSize s \<or> InactiveParListSize s < 1952257860)"
  with RemoveOneParticle_succeeds [of cfg s ParID Marker lv None v]
  obtain s' a' where r: "RemoveOneParticle cfg s ParID Marker lv None v = Inr (s', a')"
    by auto
  from RemoveOneParticle_AveDens(1) [OF r] have "a' = None" by simp
  with r show "\<exists>s'. RemoveOneParticle cfg s ParID Marker lv None v = Inr (s', None)"
    by blast
next
  show "\<exists>e. AddOneParticle cfg t NewVar NewPassive lvA None v = Inl e"
    by (rule AddOneParticle_NULL)
next
  assume "DEBUG_PARTICLE cfg \<and> 0 \<le> NPar_AcPlusInac t \<and> NewVar \<noteq> None \<and>
      (NPAR_PASSIVE cfg = 0 \<or> NewPassive \<noteq> None)"
  then show "AddOneParticle cfg t NewVar NewPassive lvA None v = Inl (Aux_Error AveDens_Null)"
    by (simp add: AddOneParticle_NULL_debug)
next
  assume a: "AddOneParticle cfg t NewVar NewPassive lvA (Some B) v = Inr (tA, aA) \<and>
      (\<exists>t1. AddOneParticle_ParID cfg t = Inr (ParIDA, t1))"
  then obtain t1 where add: "AddOneParticle cfg t NewVar NewPassive lvA (Some B) v = Inr (tA, aA)"
    and id: "AddOneParticle_ParID cfg t = Inr (ParIDA, t1)" by blast
  note f = AddOneParticle_stored [OF add id]
  from f(6) have "nat PAR_MASS < length (ParVar t)" by (simp add: PAR_MASS_def)
  from f(3) [OF this] show m: "Mass tA ! nat ParIDA = pointee NewVar ! nat PAR_MASS"
    by (simp add: Mass_def)
  from f(7) m show "aA = Some (B + Mass tA ! nat ParIDA * v)" by simp
qed

theorem density_update_witness:
  "RemoveOneParticle cfg_ex pool2_ex 1 (- 1) 1 None (1 / 2) = Inr (pool3_ex, None) \<and>
   RemoveOneParticle cfg_ex pool2_ex 1 (- 1) 1 (Some 15) (1 / 2) = Inr (pool3_ex, Some 5) \<and>
   Mass pool2_ex ! 1 = 20 \<and> Mass pool3_ex ! 1 = - 1 \<and>
   pool_ok cfg_ex pool2_ex \<and>
   AddOneParticle cfg_ex pool0_ex (particle_ex 10) (Some [1 / 2]) 0 None (1 / 2)
     = Inl (Aux_Error AveDens_Null) \<and>
   AddOneParticle cfg_ex pool0_ex (particle_ex 10) (Some [1 / 2]) 0 (Some 0) (1 / 2)
     = Inr (pool1_ex, Some 5) \<and>
   Mass pool1_ex ! 0 = 10"
proof -
  have dbg: "DEBUG_PARTICLE cfg_ex \<and> 0 \<le> NPar_AcPlusInac pool0_ex \<and> particle_ex 10 \<noteq> None \<and>
      (NPAR_PASSIVE cfg_ex = 0 \<or> Some [1 / 2 :: real] \<noteq> None)"
    by (simp add: cfg_ex_def pool0_ex_def particle_ex_def)
  have m2: "Mass pool2_ex ! 1 = 20"
    by (simp add: Mass_def pool2_ex_def PAR_MASS_def)
  have new: "pointee (particle_ex 10) ! nat PAR_MASS = 10"
    by (simp add: pointee_def particle_ex_def PAR_MASS_def)
  note t = density_update [of cfg_ex pool2_ex 1 "- 1" 1 "1 / 2" pool3_ex None 15 pool3_ex
      "Some 5" pool0_ex "particle_ex 10" "Some [1 / 2]" 0 0 pool1_ex "Some 5" 0]
  from t [THEN conjunct1] remove3_NULL_ex
  have r: "RemoveOneParticle cfg_ex pool2_ex 1 (- 1) 1 (Some 15) (1 / 2)
     = Inr (pool3_ex, Some (15 - Mass pool2_ex ! nat 1 * (1 / 2)))" by blast
  then have r': "RemoveOneParticle cfg_ex pool2_ex 1 (- 1) 1 (Some 15) (1 / 2)
     = Inr (pool3_ex, Some 5)" using m2 by simp
  from t [THEN conjunct2, THEN conjunct1] r'
  have m3: "Mass pool3_ex ! 1 = - 1" by simp
  from t [THEN conjunct2, THEN conjunct2, THEN conjunct2, THEN conjunct2, THEN conjunct1] dbg
  have null: "AddOneParticle cfg_ex pool0_ex (particle_ex 10) (Some [1 / 2]) 0 None (1 / 2)
     = Inl (Aux_Error AveDens_Null)" by blast
  from t [THEN conjunct2, THEN conjunct2, THEN conjunct2, THEN conjunct2, THEN conjunct2]
    add1_ex ParID0_ex
  have "Mass pool1_ex ! nat 0 = pointee (particle_ex 10) ! nat PAR_MASS" by blast
  then have m1: "Mass pool1_ex ! 0 = 10" using new by simp
  from remove3_NULL_ex r' m2 m3 pool_ok_ex(2) null add1_ex m1 show ?thesis by simp
qed

text \<open>
  The claim as stated fails for \<^verbatim>\<open>AddOneParticle\<close>: on the empty pool the call with a
  null \<^verbatim>\<open>AveDens\<close> ends in the fatal error of the debug build, and in a null
  dereference in the other build, where the same call with a reference returns.
\<close>

theorem density_counterexample:
  "AddOneParticle cfg_ex pool0_ex (particle_ex 10) (Some [1 / 2]) 0 None (1 / 2)
     = Inl (Aux_Error AveDens_Null) \<and>
   AddOneParticle (cfg_ex \<lparr> DEBUG_PARTICLE := False \<rparr>) pool0_ex (particle_ex 10)
       (Some [1 / 2]) 0 None (1 / 2)
     = Inl Undefined_Behaviour \<and>
   AddOneParticle cfg_ex pool0_ex (particle_ex 10) (Some [1 / 2]) 0 (Some 0) (1 / 2)
     = Inr (pool1_ex, Some 5)"
  using add1_ex
  by (simp add: call_defs cfg_ex_def particle_ex_def pool0_ex_def)



text \<open>
  C5. The claim is that \<^verbatim>\<open>AddOneParticle\<close>, called with an empty free list and
  \<^verbatim>\<open>NPar_AcPlusInac == ParListSize\<close>, grows every attribute array to
  \<^verbatim>\<open>ceil(1.1 * (ParListSize + 1))\<close>, keeps the stored values, takes the old
  \<^verbatim>\<open>NPar_AcPlusInac\<close> as the particle ID and increments \<^verbatim>\<open>NPar_AcPlusInac\<close>. In a
  well-formed pool with \<^verbatim>\<open>ParListSize\<close> below 1952257860 the call does all of this
  (\<open>AddOneParticle_new_slot\<close>, \<open>AddOneParticle_succeeds\<close>). From there on the new size no
  longer fits the \<^verbatim>\<open>int\<close> it is converted to before it is stored in the \<^verbatim>\<open>long\<close>
  \<^verbatim>\<open>ParListSize\<close>: in the pool that \<^verbatim>\<open>InitVar\<close> sets up for 2000000000 particles, the new
  size is 2200000002 and the call ends in undefined behaviour, in either build.
\<close>

theorem growth_overflow:
  "InitVar cfg_ex start_big_ex = Inr big_ex \<and>
   NPar_Inactive big_ex = 0 \<and> NPar_AcPlusInac big_ex = ParListSize big_ex \<and>
   ParListSize big_ex = 2000000000 \<and>
   \<lceil>PARLIST_GROWTH_FACTOR * real_of_int (ParListSize big_ex + 1)\<rceil> = 2200000002 \<and>
   INT_MAX = 2147483647 \<and>
   AddOneParticle cfg_ex big_ex (particle_ex 10) (Some [1 / 2]) 0 (Some 0) (1 / 2)
     = Inl Undefined_Behaviour \<and>
   AddOneParticle (cfg_ex \<lparr> DEBUG_PARTICLE := False \<rparr>) big_ex (particle_ex 10) (Some [1 / 2]) 0
       (Some 0) (1 / 2)
     = Inl Undefined_Behaviour"
proof -
  have f: "NPar_Inactive big_ex = 0" "NPar_AcPlusInac big_ex = ParListSize big_ex"
    "ParListSize big_ex = 2000000000"
    by (simp_all add: big_ex_def)
  have c: "\<lceil>PARLIST_GROWTH_FACTOR * real_of_int (ParListSize big_ex + 1)\<rceil> = 2200000002"
    using ceiling_growth [of 2000000001] by (simp add: f)
  have chk: "AddOneParticle_check cfg (big_ex) (particle_ex 10) (Some [1 / 2]) (Some 0) = None"
    for cfg
    by (simp add: AddOneParticle_check_def big_ex_def particle_ex_def)
  have "AddOneParticle cfg big_ex (particle_ex 10) (Some [1 / 2]) 0 (Some 0) (1 / 2)
     = Inl Undefined_Behaviour" for cfg
    by (rule AddOneParticle_overflow [OF chk]) (simp_all add: f)
  with InitVar_big_ex f c show ?thesis by (simp add: INT_MAX_def)
qed

text \<open>
  C6. \<^verbatim>\<open>RemoveOneParticle\<close> never reads the mass to decide what to do: whenever it
  returns, it has pushed \<^verbatim>\<open>ParID\<close> on \<^verbatim>\<open>InactiveParList\<close>, decremented \<^verbatim>\<open>NPar_Active\<close>
  and incremented \<^verbatim>\<open>NPar_Inactive\<close>. In a well-formed pool, for every \<^verbatim>\<open>ParID\<close> in
  \<^verbatim>\<open>[0, NPar_AcPlusInac)\<close>, a removal returns and leaves the mass of the slot at the
  marker, and a second removal of the same \<^verbatim>\<open>ParID\<close> returns too: the ID is then
  twice on the list and both counters have moved twice.
\<close>

theorem double_removal_unguarded:
  "(RemoveOneParticle cfg s ParID Marker lv AveDens v = Inr (s', a')
     \<longrightarrow> InactiveParList s' ! nat (NPar_Inactive s) = ParID \<and>
         NPar_Active s' = NPar_Active s - 1 \<and>
         NPar_Inactive s' = NPar_Inactive s + 1) \<and>
   (pool_ok cfg s \<and> 0 \<le> ParID \<and> ParID < NPar_AcPlusInac s \<and>
    (DEBUG_PARTICLE cfg \<longrightarrow> (Marker = PAR_INACTIVE_OUTSIDE \<or> Marker = PAR_INACTIVE_MPI)) \<and>
    (DEBUG_PARTICLE cfg \<longrightarrow> (Marker' = PAR_INACTIVE_OUTSIDE \<or> Marker' = PAR_INACTIVE_MPI)) \<and>
    (lv = NULL_INT \<or> (0 \<le> lv \<and> lv < int (NLEVEL cfg))) \<and>
    (lv' = NULL_INT \<or> (0 \<le> lv' \<and> lv' < int (NLEVEL cfg))) \<and>
    InactiveParListSize s < 1952257860
     \<longrightarrow> (\<exists>s1 a1 s2 a2.
           RemoveOneParticle cfg s ParID Marker lv AveDens v = Inr (s1, a1) \<and>
           Mass s1 ! nat ParID = Marker \<and>
           RemoveOneParticle cfg s1 ParID Marker' lv' AveDens' v' = Inr (s2, a2) \<and>
           InactiveParList s2 ! nat (NPar_Inactive s) = ParID \<and>
           InactiveParList s2 ! nat (NPar_Inactive s + 1) = ParID \<and>
           NPar_Active s2 = NPar_Active s - 2 \<and>
           NPar_Inactive s2 = NPar_Inactive s + 2 \<and>
           NPar_AcPlusInac s2 = NPar_AcPlusInac s))"
proof (intro conjI impI)
  assume r: "RemoveOneParticle cfg s ParID Marker lv AveDens v = Inr (s', a')"
  from RemoveOneParticle_effect [OF r]
  show "InactiveParList s' ! nat (NPar_Inactive s) = ParID"
    "NPar_Active s' = NPar_Active s - 1" "NPar_Inactive s' = NPar_Inactive s + 1"
    by simp_all
next
  assume a: "pool_ok cfg s \<and> 0 \<le> ParID \<and> ParID < NPar_AcPlusInac s \<and>
    (DEBUG_PARTICLE cfg \<longrightarrow> (Marker = PAR_INACTIVE_OUTSIDE \<or> Marker = PAR_INACTIVE_MPI)) \<and>
    (DEBUG_PARTICLE cfg \<longrightarrow> (Marker' = PAR_INACTIVE_OUTSIDE \<or> Marker' = PAR_INACTIVE_MPI)) \<and>
    (lv = NULL_INT \<or> (0 \<le> lv \<and> lv < int (NLEVEL cfg))) \<and>
    (lv' = NULL_INT \<or> (0 \<le> lv' \<and> lv' < int (NLEVEL cfg))) \<and>
    InactiveParListSize s < 1952257860"
  then have ok: "pool_ok cfg s" and id: "0 \<le> ParID" "ParID < NPar_AcPlusInac s" by simp_all
  from a RemoveOneParticle_succeeds [of cfg s ParID Marker lv AveDens v]
  obtain s1 a1 where r1: "RemoveOneParticle cfg s ParID Marker lv AveDens v = Inr (s1, a1)"
    by auto
  note f1 = RemoveOneParticle_effect [OF r1]
  from RemoveOneParticle_pool_ok [OF ok r1 id(2)] have ok1: "pool_ok cfg s1" .
  from RemoveOneParticle_room [OF ok r1] a
  have room: "NPar_Inactive s1 < InactiveParListSize s1 \<or> InactiveParListSize s1 < 1952257860"
    by auto
  from RemoveOneParticle_counters(3) [OF r1] id have id1: "ParID < NPar_AcPlusInac s1" by simp
  from a ok1 id(1) id1 room RemoveOneParticle_succeeds [of cfg s1 ParID Marker' lv' AveDens' v']
  obtain s2 a2 where r2: "RemoveOneParticle cfg s1 ParID Marker' lv' AveDens' v' = Inr (s2, a2)"
    by auto
  note f2 = RemoveOneParticle_effect [OF r2]
  from ok have n0: "0 \<le> NPar_Inactive s" by (simp add: pool_ok_def)
  from RemoveOneParticle_body_Inr [OF RemoveOneParticle_Inr(2) [OF r1]]
  have in1: "nat (NPar_Inactive s) < length (InactiveParList s1)"
    using n0 by (auto dest: RemoveOneParticle_grow_fields)
  from RemoveOneParticle_body_Inr [OF RemoveOneParticle_Inr(2) [OF r2]]
  have "NPar_Inactive s1 < int (length (InactiveParList s2))" by auto
  with f1 n0 have in2: "nat (NPar_Inactive s) < length (InactiveParList s2)" by simp
  from n0 f1 have ne: "nat (NPar_Inactive s) \<noteq> nat (NPar_Inactive s1)" by simp
  from f2 in1 in2 ne have "InactiveParList s2 ! nat (NPar_Inactive s)
      = InactiveParList s1 ! nat (NPar_Inactive s)" by blast
  with f1 have first: "InactiveParList s2 ! nat (NPar_Inactive s) = ParID" by simp
  from f1 f2 have second: "InactiveParList s2 ! nat (NPar_Inactive s + 1) = ParID" by simp
  from f1 f2 RemoveOneParticle_counters(3) [OF r1] RemoveOneParticle_counters(3) [OF r2]
  have "NPar_Active s2 = NPar_Active s - 2" "NPar_Inactive s2 = NPar_Inactive s + 2"
    "NPar_AcPlusInac s2 = NPar_AcPlusInac s" "Mass s1 ! nat ParID = Marker"
    by simp_all
  with r1 r2 first second show "\<exists>s1 a1 s2 a2.
           RemoveOneParticle cfg s ParID Marker lv AveDens v = Inr (s1, a1) \<and>
           Mass s1 ! nat ParID = Marker \<and>
           RemoveOneParticle cfg s1 ParID Marker' lv' AveDens' v' = Inr (s2, a2) \<and>
           InactiveParList s2 ! nat (NPar_Inactive s) = ParID \<and>
           InactiveParList s2 ! nat (NPar_Inactive s + 1) = ParID \<and>
           NPar_Active s2 = NPar_Active s - 2 \<and>
           NPar_Inactive s2 = NPar_Inactive s + 2 \<and>
           NPar_AcPlusInac s2 = NPar_AcPlusInac s"
    by blast
qed

theorem double_removal_unguarded_witness:
  "pool_ok cfg_ex pool2_ex \<and> (0::int) \<le> 1 \<and> 1 < NPar_AcPlusInac pool2_ex \<and>
   InactiveParListSize pool2_ex < 1952257860 \<and>
   RemoveOneParticle cfg_ex pool2_ex 1 (- 1) 1 (Some 15) (1 / 2) = Inr (pool3_ex, Some 5) \<and>
   InactiveParList pool3_ex ! nat (NPar_Inactive pool2_ex) = 1 \<and>
   (\<exists>s2 a2.
      RemoveOneParticle cfg_ex pool3_ex 1 (- 2) NULL_INT (Some 5) (1 / 2) = Inr (s2, a2) \<and>
      InactiveParList s2 ! 0 = 1 \<and> InactiveParList s2 ! 1 = 1 \<and>
      NPar_Active s2 = 0 \<and> NPar_Inactive s2 = 2 \<and> NPar_AcPlusInac s2 = 2)"
proof -
  have id: "(0::int) \<le> 1" "1 < NPar_AcPlusInac pool2_ex"
    "InactiveParListSize pool2_ex < 1952257860"
    by (simp_all add: pool2_ex_def)
  have c: "NPar_Inactive pool2_ex = 0" "NPar_Active pool2_ex = 2" "NPar_AcPlusInac pool2_ex = 2"
    by (simp_all add: pool2_ex_def)
  note t = double_removal_unguarded [of cfg_ex pool2_ex 1 "- 1" 1 "Some 15" "1 / 2" pool3_ex
      "Some 5" "- 2" NULL_INT "Some 5" "1 / 2"]
  from t [THEN conjunct1] remove3_ex
  have one: "InactiveParList pool3_ex ! nat (NPar_Inactive pool2_ex) = 1" by blast
  from t [THEN conjunct2] pool_ok_ex(2) id marker_ex level_ex(1,2)
  obtain s1 a1 s2 a2 where
    r1: "RemoveOneParticle cfg_ex pool2_ex 1 (- 1) 1 (Some 15) (1 / 2) = Inr (s1, a1)"
    and r2: "RemoveOneParticle cfg_ex s1 1 (- 2) NULL_INT (Some 5) (1 / 2) = Inr (s2, a2)"
    and e: "InactiveParList s2 ! nat (NPar_Inactive pool2_ex) = 1"
      "InactiveParList s2 ! nat (NPar_Inactive pool2_ex + 1) = 1"
      "NPar_Active s2 = NPar_Active pool2_ex - 2"
      "NPar_Inactive s2 = NPar_Inactive pool2_ex + 2"
      "NPar_AcPlusInac s2 = NPar_AcPlusInac pool2_ex"
    by blast
  from r1 remove3_ex have "s1 = pool3_ex" by simp
  with r2 e c have "\<exists>s2 a2.
      RemoveOneParticle cfg_ex pool3_ex 1 (- 2) NULL_INT (Some 5) (1 / 2) = Inr (s2, a2) \<and>
      InactiveParList s2 ! 0 = 1 \<and> InactiveParList s2 ! 1 = 1 \<and>
      NPar_Active s2 = 0 \<and> NPar_Inactive s2 = 2 \<and> NPar_AcPlusInac s2 = 2"
    by auto
  with pool_ok_ex(2) id remove3_ex one show ?thesis by simp
qed

text \<open>
  C7. With \<^verbatim>\<open>NPar_AcPlusInac >= 0\<close> and \<^verbatim>\<open>Interp\<close> one of NGP, CIC and TSC, \<^verbatim>\<open>InitVar\<close>
  returns, and afterwards \<^verbatim>\<open>NPar_Active == NPar_AcPlusInac\<close>, \<^verbatim>\<open>NPar_Inactive == 0\<close>,
  \<^verbatim>\<open>ParListSize == NPar_AcPlusInac\<close>, every attribute array has exactly
  \<^verbatim>\<open>NPar_AcPlusInac\<close> cells, and \<^verbatim>\<open>GhostSize\<close> is 0 for NGP and 1 for CIC and TSC. With
  \<^verbatim>\<open>NPar_AcPlusInac == 0\<close> this gives \<^verbatim>\<open>ParListSize == 0\<close> and \<^verbatim>\<open>NPar_Active == 0\<close>.
\<close>

theorem InitVar_establishes:
  assumes "0 \<le> NPar_AcPlusInac s"
    and "Interp s = PAR_INTERP_NGP \<or> Interp s = PAR_INTERP_CIC \<or> Interp s = PAR_INTERP_TSC"
  shows "\<exists>s'. InitVar cfg s = Inr s' \<and>
           NPar_AcPlusInac s' = NPar_AcPlusInac s \<and>
           NPar_Active s' = NPar_AcPlusInac s \<and>
           NPar_Inactive s' = 0 \<and>
           ParListSize s' = NPar_AcPlusInac s \<and>
           length (ParVar s') = NPAR_VAR cfg \<and>
           length (Passive s') = NPAR_PASSIVE cfg \<and>
           (\<forall>b \<in> set (ParVar s') \<union> set (Passive s'). int (length b) = NPar_AcPlusInac s) \<and>
           (Interp s = PAR_INTERP_NGP \<longrightarrow> GhostSize s' = 0) \<and>
           (Interp s = PAR_INTERP_CIC \<longrightarrow> GhostSize s' = 1) \<and>
           (Interp s = PAR_INTERP_TSC \<longrightarrow> GhostSize s' = 1) \<and>
           (NPar_AcPlusInac s = 0 \<longrightarrow> ParListSize s' = 0 \<and> NPar_Active s' = 0)"
  using assms
  by (auto simp: InitVar_def Let_def malloc_def)

theorem InitVar_establishes_witness:
  "0 \<le> NPar_AcPlusInac start_ex \<and> Interp start_ex = PAR_INTERP_CIC \<and>
   NPar_AcPlusInac start_ex = 0 \<and>
   InitVar cfg_ex start_ex = Inr pool0_ex \<and>
   NPar_Active pool0_ex = 0 \<and> NPar_Inactive pool0_ex = 0 \<and> ParListSize pool0_ex = 0 \<and>
   GhostSize pool0_ex = 1"
proof -
  have h: "0 \<le> NPar_AcPlusInac start_ex" "Interp start_ex = PAR_INTERP_CIC"
    "NPar_AcPlusInac start_ex = 0"
    by (simp_all add: start_ex_def Particle_t_constructor_def)
  from h(2) have "Interp start_ex = PAR_INTERP_NGP \<or> Interp start_ex = PAR_INTERP_CIC \<or>
    Interp start_ex = PAR_INTERP_TSC" by simp
  from InitVar_establishes [OF h(1) this, of cfg_ex] obtain s'
    where i: "InitVar cfg_ex start_ex = Inr s'"
      and e: "NPar_Active s' = NPar_AcPlusInac start_ex" "NPar_Inactive s' = 0"
        "ParListSize s' = NPar_AcPlusInac start_ex"
        "Interp start_ex = PAR_INTERP_CIC \<longrightarrow> GhostSize s' = 1"
    by blast
  from i InitVar_ex have "s' = pool0_ex" by simp
  with e h InitVar_ex show ?thesis by simp
qed

text \<open>
  C8. In the debug build \<^verbatim>\<open>RemoveOneParticle\<close> stops with the error of a wrong
  \<^verbatim>\<open>ParID\<close> exactly when \<^verbatim>\<open>ParID < 0\<close> or \<^verbatim>\<open>ParID >= NPar_AcPlusInac\<close>, and with the error
  of an unsupported marker exactly when \<^verbatim>\<open>ParID\<close> is in range and \<^verbatim>\<open>Marker\<close> is neither
  \<^verbatim>\<open>PAR_INACTIVE_OUTSIDE\<close> (-1.0) nor \<^verbatim>\<open>PAR_INACTIVE_MPI\<close> (-2.0); the range is checked
  first. For a \<^verbatim>\<open>ParID\<close> in range and one of the two markers the checks pass and the
  call is the removal itself, which returns in a well-formed pool (for a level that
  is one or \<^verbatim>\<open>NULL_INT\<close>, and a free list that can still grow): there the call
  returns exactly when its preconditions hold.
\<close>

theorem remove_validation:
  assumes "DEBUG_PARTICLE cfg"
  shows
   "(RemoveOneParticle_check cfg s ParID Marker = None \<longleftrightarrow>
       0 \<le> ParID \<and> ParID < NPar_AcPlusInac s \<and>
       (Marker = PAR_INACTIVE_OUTSIDE \<or> Marker = PAR_INACTIVE_MPI)) \<and>
    (RemoveOneParticle cfg s ParID Marker lv AveDens v = Inl (Aux_Error Wrong_ParID) \<longleftrightarrow>
       ParID < 0 \<or> ParID \<ge> NPar_AcPlusInac s) \<and>
    (RemoveOneParticle cfg s ParID Marker lv AveDens v = Inl (Aux_Error Unsupported_Marker) \<longleftrightarrow>
       0 \<le> ParID \<and> ParID < NPar_AcPlusInac s \<and>
       Marker \<noteq> PAR_INACTIVE_OUTSIDE \<and> Marker \<noteq> PAR_INACTIVE_MPI) \<and>
    (0 \<le> ParID \<and> ParID < NPar_AcPlusInac s \<and>
       (Marker = PAR_INACTIVE_OUTSIDE \<or> Marker = PAR_INACTIVE_MPI)
       \<longrightarrow> RemoveOneParticle cfg s ParID Marker lv AveDens v
           = RemoveOneParticle_body cfg s ParID Marker lv AveDens v) \<and>
    (pool_ok cfg s \<and> (lv = NULL_INT \<or> (0 \<le> lv \<and> lv < int (NLEVEL cfg))) \<and>
       (NPar_Inactive s < InactiveParListSize s \<or> InactiveParListSize s < 1952257860)
       \<longrightarrow> ((\<exists>s' a'. RemoveOneParticle cfg s ParID Marker lv AveDens v = Inr (s', a')) \<longleftrightarrow>
            0 \<le> ParID \<and> ParID < NPar_AcPlusInac s \<and>
            (Marker = PAR_INACTIVE_OUTSIDE \<or> Marker = PAR_INACTIVE_MPI))) \<and>
    PAR_INACTIVE_OUTSIDE = - 1 \<and> PAR_INACTIVE_MPI = - 2"
proof (intro conjI impI)
  show chk: "RemoveOneParticle_check cfg s ParID Marker = None \<longleftrightarrow>
       0 \<le> ParID \<and> ParID < NPar_AcPlusInac s \<and>
       (Marker = PAR_INACTIVE_OUTSIDE \<or> Marker = PAR_INACTIVE_MPI)"
    using assms by (auto simp: RemoveOneParticle_check_def)
  show "RemoveOneParticle cfg s ParID Marker lv AveDens v = Inl (Aux_Error Wrong_ParID) \<longleftrightarrow>
       ParID < 0 \<or> ParID \<ge> NPar_AcPlusInac s"
    using assms
    by (auto simp: RemoveOneParticle_def RemoveOneParticle_check_def
        dest: RemoveOneParticle_body_Inl)
  show "RemoveOneParticle cfg s ParID Marker lv AveDens v = Inl (Aux_Error Unsupported_Marker) \<longleftrightarrow>
       0 \<le> ParID \<and> ParID < NPar_AcPlusInac s \<and>
       Marker \<noteq> PAR_INACTIVE_OUTSIDE \<and> Marker \<noteq> PAR_INACTIVE_MPI"
    using assms
    by (auto simp: RemoveOneParticle_def RemoveOneParticle_check_def
        dest: RemoveOneParticle_body_Inl)
  show "PAR_INACTIVE_OUTSIDE = - 1" "PAR_INACTIVE_MPI = - 2"
    by (simp_all add: PAR_INACTIVE_OUTSIDE_def PAR_INACTIVE_MPI_def)
next
  assume "0 \<le> ParID \<and> ParID < NPar_AcPlusInac s \<and>
       (Marker = PAR_INACTIVE_OUTSIDE \<or> Marker = PAR_INACTIVE_MPI)"
  then show "RemoveOneParticle cfg s ParID Marker lv AveDens v
           = RemoveOneParticle_body cfg s ParID Marker lv AveDens v"
    by (auto simp: RemoveOneParticle_def RemoveOneParticle_check_def)
next
  assume a: "pool_ok cfg s \<and> (lv = NULL_INT \<or> (0 \<le> lv \<and> lv < int (NLEVEL cfg))) \<and>
       (NPar_Inactive s < InactiveParListSize s \<or> InactiveParListSize s < 1952257860)"
  show "(\<exists>s' a'. RemoveOneParticle cfg s ParID Marker lv AveDens v = Inr (s', a')) \<longleftrightarrow>
            0 \<le> ParID \<and> ParID < NPar_AcPlusInac s \<and>
            (Marker = PAR_INACTIVE_OUTSIDE \<or> Marker = PAR_INACTIVE_MPI)"
  proof
    assume "\<exists>s' a'. RemoveOneParticle cfg s ParID Marker lv AveDens v = Inr (s', a')"
    then obtain s' a' where "RemoveOneParticle cfg s ParID Marker lv AveDens v = Inr (s', a')"
      by blast
    from RemoveOneParticle_Inr(1) [OF this] assms
    show "0 \<le> ParID \<and> ParID < NPar_AcPlusInac s \<and>
            (Marker = PAR_INACTIVE_OUTSIDE \<or> Marker = PAR_INACTIVE_MPI)"
      by (auto simp: RemoveOneParticle_check_def split: if_splits)
  next
    assume "0 \<le> ParID \<and> ParID < NPar_AcPlusInac s \<and>
            (Marker = PAR_INACTIVE_OUTSIDE \<or> Marker = PAR_INACTIVE_MPI)"
    with a show "\<exists>s' a'. RemoveOneParticle cfg s ParID Marker lv AveDens v = Inr (s', a')"
      by (intro RemoveOneParticle_succeeds) simp_all
  qed
qed

theorem remove_validation_witness:
  "DEBUG_PARTICLE cfg_ex \<and> pool_ok cfg_ex pool2_ex \<and> NPar_AcPlusInac pool2_ex = 2 \<and>
   RemoveOneParticle_check cfg_ex pool2_ex 1 (- 1) = None \<and>
   RemoveOneParticle cfg_ex pool2_ex 1 (- 1) 1 (Some 15) (1 / 2)
     = RemoveOneParticle_body cfg_ex pool2_ex 1 (- 1) 1 (Some 15) (1 / 2) \<and>
   RemoveOneParticle cfg_ex pool2_ex 1 (- 1) 1 (Some 15) (1 / 2) = Inr (pool3_ex, Some 5) \<and>
   RemoveOneParticle cfg_ex pool2_ex 2 (- 1) 1 (Some 15) (1 / 2) = Inl (Aux_Error Wrong_ParID) \<and>
   RemoveOneParticle cfg_ex pool2_ex (- 1) (- 3) 1 (Some 15) (1 / 2)
     = Inl (Aux_Error Wrong_ParID) \<and>
   RemoveOneParticle cfg_ex pool2_ex 1 (- 3) 1 (Some 15) (1 / 2)
     = Inl (Aux_Error Unsupported_Marker) \<and>
   (\<exists>s' a'. RemoveOneParticle cfg_ex pool2_ex 1 (- 1) 1 (Some 15) (1 / 2) = Inr (s', a'))"
proof -
  have dbg: "DEBUG_PARTICLE cfg_ex" by (simp add: cfg_ex_def)
  have n: "NPar_AcPlusInac pool2_ex = 2" by (simp add: pool2_ex_def)
  have mk: "(- 1 :: real) = PAR_INACTIVE_OUTSIDE" "(- 3 :: real) \<noteq> PAR_INACTIVE_OUTSIDE"
    "(- 3 :: real) \<noteq> PAR_INACTIVE_MPI"
    by (simp_all add: PAR_INACTIVE_OUTSIDE_def PAR_INACTIVE_MPI_def)
  note good = remove_validation [OF dbg, of pool2_ex 1 "- 1" 1 "Some 15" "1 / 2"]
  note high = remove_validation [OF dbg, of pool2_ex 2 "- 1" 1 "Some 15" "1 / 2"]
  note low = remove_validation [OF dbg, of pool2_ex "- 1" "- 3" 1 "Some 15" "1 / 2"]
  note bad = remove_validation [OF dbg, of pool2_ex 1 "- 3" 1 "Some 15" "1 / 2"]
  from good [THEN conjunct1] n mk(1)
  have 1: "RemoveOneParticle_check cfg_ex pool2_ex 1 (- 1) = None" by simp
  from good [THEN conjunct2, THEN conjunct2, THEN conjunct2, THEN conjunct1] n mk(1)
  have 2: "RemoveOneParticle cfg_ex pool2_ex 1 (- 1) 1 (Some 15) (1 / 2)
     = RemoveOneParticle_body cfg_ex pool2_ex 1 (- 1) 1 (Some 15) (1 / 2)" by simp
  from high [THEN conjunct2, THEN conjunct1] n
  have 3: "RemoveOneParticle cfg_ex pool2_ex 2 (- 1) 1 (Some 15) (1 / 2)
     = Inl (Aux_Error Wrong_ParID)" by simp
  from low [THEN conjunct2, THEN conjunct1] n
  have 4: "RemoveOneParticle cfg_ex pool2_ex (- 1) (- 3) 1 (Some 15) (1 / 2)
     = Inl (Aux_Error Wrong_ParID)" by simp
  from bad [THEN conjunct2, THEN conjunct2, THEN conjunct1] n mk(2,3)
  have 5: "RemoveOneParticle cfg_ex pool2_ex 1 (- 3) 1 (Some 15) (1 / 2)
     = Inl (Aux_Error Unsupported_Marker)" by simp
  have room: "NPar_Inactive pool2_ex < InactiveParListSize pool2_ex \<or>
      InactiveParListSize pool2_ex < 1952257860"
    by (simp add: pool2_ex_def)
  have pre: "(0::int) \<le> 1 \<and> 1 < NPar_AcPlusInac pool2_ex \<and>
      ((- 1 :: real) = PAR_INACTIVE_OUTSIDE \<or> (- 1 :: real) = PAR_INACTIVE_MPI)"
    using n mk(1) by simp
  from good [THEN conjunct2, THEN conjunct2, THEN conjunct2, THEN conjunct2, THEN conjunct1]
    pool_ok_ex(2) level_ex(1) room pre
  have 6: "\<exists>s' a'. RemoveOneParticle cfg_ex pool2_ex 1 (- 1) 1 (Some 15) (1 / 2) = Inr (s', a')"
    by blast
  from dbg pool_ok_ex(2) n 1 2 remove3_ex 3 4 5 6 show ?thesis by simp
qed






end
